theory Spec2Isabelle
  imports Main "HOL-Library.Sublist"
begin

section \<open>Errors and message formatting\<close>

text \<open>
  Go compares error values by identity (\<open>err == ErrStorageNotConfigured\<close>) and by dynamic
  type (\<open>permanentError\<close>); the API machinery classifies errors by their status reason
  (\<open>errors.IsNotFound\<close>, \<open>errors.IsConflict\<close>). Each of these is a constructor of its own:
  an error made by \<open>fmt.Errorf\<close> is never the sentinel \<open>ErrStorageNotConfigured\<close>, whatever
  its text.
\<close>

datatype StatusReason = StatusReasonNotFound | StatusReasonConflict | StatusReasonOther string

datatype error =
    ErrStorageNotConfigured
  | Errorf string
  | permanentError error
  | StatusError StatusReason string

text \<open>The method \<open>Error()\<close>: \<open>permanentError\<close> delegates to the error it wraps.\<close>

fun Error :: "error \<Rightarrow> string" where
  "Error ErrStorageNotConfigured = ''storage backend not configured''"
| "Error (Errorf msg) = msg"
| "Error (permanentError e) = Error e"
| "Error (StatusError r msg) = msg"

text \<open>The verb \<open>%d\<close> on a non-negative integer: its decimal digits.\<close>

definition digit :: "nat \<Rightarrow> char" where
  "digit d = ''0123456789'' ! d"

fun fmt_d :: "nat \<Rightarrow> string" where
  "fmt_d n = (if n < 10 then [digit n] else fmt_d (n div 10) @ [digit (n mod 10)])"

declare fmt_d.simps [simp del]

text \<open>The verb \<open>%v\<close> on a slice of strings: the elements, separated by spaces, in brackets.\<close>

fun join_sp :: "string list \<Rightarrow> string" where
  "join_sp [] = []"
| "join_sp [x] = x"
| "join_sp (x # y # ys) = x @ '' '' @ join_sp (y # ys)"

definition fmt_v :: "string list \<Rightarrow> string" where
  "fmt_v xs = ''['' @ join_sp xs @ '']''"

section \<open>Storage driver resolution (pkg/storage/storage.go)\<close>

text \<open>
  \<open>ImageRegistryConfigStorage\<close> has one pointer field per backend; a nil pointer is \<open>None\<close>.
  The backend parameter structs are declared outside the two files modelled here, so each
  is a type variable; so are \<open>rest.Config\<close> (\<open>'k\<close>) and the listers (\<open>'l\<close>).
\<close>

record ('e, 's, 'w, 'g, 'p, 'a) ImageRegistryConfigStorage =
  EmptyDir :: "'e option"
  S3 :: "'s option"
  Swift :: "'w option"
  GCS :: "'g option"
  PVC :: "'p option"
  Azure :: "'a option"

text \<open>
  The \<open>Driver\<close> interface has one implementation per backend. The five constructors that
  cannot fail are free constructors over their arguments; \<open>pvc.NewDriver\<close> can fail, so it
  is a parameter of the resolver and \<open>PVCDriver\<close> carries what it returned.
\<close>

datatype ('e, 's, 'w, 'g, 'pd, 'a, 'k, 'l) Driver =
    EmptyDirDriver 'e 'l
  | S3Driver 's 'k 'l
  | SwiftDriver 'w 'l
  | GCSDriver 'g 'l
  | PVCDriver 'pd
  | AzureDriver 'a 'k 'l

text \<open>
  The message of the last line of \<open>newDriver\<close>, the format
  \<open>"exactly one storage type should be configured at the same time, got %d: %v"\<close>
  applied to \<open>len(drivers)\<close> and \<open>names\<close>.
\<close>

definition ambiguousMessage :: "nat \<Rightarrow> string list \<Rightarrow> string" where
  "ambiguousMessage n names =
     ''exactly one storage type should be configured at the same time, got ''
       @ fmt_d n @ '': '' @ fmt_v names"

text \<open>The tail of \<open>newDriver\<close>: the switch on \<open>len(drivers)\<close> and the final \<open>fmt.Errorf\<close>.\<close>

definition selectDriver :: "string list \<Rightarrow> 'd list \<Rightarrow> error + 'd" where
  "selectDriver names drivers =
     (case drivers of
        [] \<Rightarrow> Inl ErrStorageNotConfigured
      | [d] \<Rightarrow> Inr d
      | _ \<Rightarrow> Inl (Errorf (ambiguousMessage (length drivers) names)))"

definition newDriver ::
  "('p \<Rightarrow> 'k \<Rightarrow> error + 'pd) \<Rightarrow> ('e, 's, 'w, 'g, 'p, 'a) ImageRegistryConfigStorage \<Rightarrow> 'k \<Rightarrow> 'l
     \<Rightarrow> error + ('e, 's, 'w, 'g, 'pd, 'a, 'k, 'l) Driver" where
  "newDriver pvc_NewDriver cfg kubeconfig listers =
     (let names = []; drivers = [];
          (names, drivers) = (case EmptyDir cfg of None \<Rightarrow> (names, drivers)
             | Some c \<Rightarrow> (names @ [''EmptyDir''], drivers @ [EmptyDirDriver c listers]));
          (names, drivers) = (case S3 cfg of None \<Rightarrow> (names, drivers)
             | Some c \<Rightarrow> (names @ [''S3''], drivers @ [S3Driver c kubeconfig listers]));
          (names, drivers) = (case Swift cfg of None \<Rightarrow> (names, drivers)
             | Some c \<Rightarrow> (names @ [''Swift''], drivers @ [SwiftDriver c listers]));
          (names, drivers) = (case GCS cfg of None \<Rightarrow> (names, drivers)
             | Some c \<Rightarrow> (names @ [''GCS''], drivers @ [GCSDriver c listers]));
          azure = (\<lambda>(names, drivers). case Azure cfg of None \<Rightarrow> (names, drivers)
             | Some c \<Rightarrow> (names @ [''Azure''], drivers @ [AzureDriver c kubeconfig listers]))
      in case PVC cfg of
           None \<Rightarrow> (case azure (names, drivers) of (names, drivers) \<Rightarrow> selectDriver names drivers)
         | Some c \<Rightarrow>
             (case pvc_NewDriver c kubeconfig of
                Inl err \<Rightarrow> Inl err
              | Inr drv \<Rightarrow>
                  (case azure (names @ [''PVC''], drivers @ [PVCDriver drv]) of
                     (names, drivers) \<Rightarrow> selectDriver names drivers)))"

text \<open>
  The installer's platform descriptor: \<open>getPlatformStorage\<close> reads only whether each of the
  four pointers is nil.
\<close>

record ('lv, 'aws, 'az, 'os) Platform =
  Platform_Libvirt :: "'lv option"
  Platform_AWS :: "'aws option"
  Platform_Azure :: "'az option"
  Platform_OpenStack :: "'os option"

record ('lv, 'aws, 'az, 'os) InstallConfig =
  Platform :: "('lv, 'aws, 'az, 'os) Platform"

text \<open>\<open>var cfg ImageRegistryConfigStorage\<close>: every pointer nil.\<close>

definition zeroStorage :: "('e, 's, 'w, 'g, 'p, 'a) ImageRegistryConfigStorage" where
  "zeroStorage = \<lparr>EmptyDir = None, S3 = None, Swift = None, GCS = None, PVC = None, Azure = None\<rparr>"

text \<open>
  The zero-valued parameter structs that \<open>getPlatformStorage\<close> allocates
  (\<open>&ImageRegistryConfigStorageS3{}\<close> and its siblings).
\<close>

record ('e, 's, 'w, 'a) zeroStructs =
  zeroEmptyDir :: 'e
  zeroS3 :: 's
  zeroSwift :: 'w
  zeroAzure :: 'a

text \<open>
  \<open>clusterconfig.GetInstallConfig\<close> is a collaborator: a parameter. The \<open>switch\<close> takes
  the first case that holds.
\<close>

definition getPlatformStorage ::
  "('k \<Rightarrow> error + ('lv, 'aws, 'az, 'os) InstallConfig) \<Rightarrow> ('e, 's, 'w, 'a) zeroStructs \<Rightarrow> 'k
     \<Rightarrow> ('e, 's, 'w, 'g, 'p, 'a) ImageRegistryConfigStorage \<times> error option" where
  "getPlatformStorage GetInstallConfig z kubeconfig =
     (let cfg = zeroStorage in
      case GetInstallConfig kubeconfig of
        Inl err \<Rightarrow> (cfg, Some err)
      | Inr installConfig \<Rightarrow>
          (if Platform_Libvirt (Platform installConfig) \<noteq> None
             then (cfg\<lparr>EmptyDir := Some (zeroEmptyDir z)\<rparr>, None)
           else if Platform_AWS (Platform installConfig) \<noteq> None
             then (cfg\<lparr>S3 := Some (zeroS3 z)\<rparr>, None)
           else if Platform_Azure (Platform installConfig) \<noteq> None
             then (cfg\<lparr>Azure := Some (zeroAzure z)\<rparr>, None)
           else if Platform_OpenStack (Platform installConfig) \<noteq> None
             then (cfg\<lparr>Swift := Some (zeroSwift z)\<rparr>, None)
           else (cfg, None)))"

text \<open>
  \<open>NewDriver\<close> writes through the pointer \<open>cfg\<close>, so the model returns the configuration
  as the caller sees it afterwards, next to the result. The assignment
  \<open>*cfg, err = getPlatformStorage(kubeconfig)\<close> overwrites the configuration also when
  \<open>err\<close> is not nil.
\<close>

definition NewDriver ::
  "('p \<Rightarrow> 'k \<Rightarrow> error + 'pd) \<Rightarrow> ('k \<Rightarrow> error + ('lv, 'aws, 'az, 'os) InstallConfig)
     \<Rightarrow> ('e, 's, 'w, 'a) zeroStructs
     \<Rightarrow> ('e, 's, 'w, 'g, 'p, 'a) ImageRegistryConfigStorage \<Rightarrow> 'k \<Rightarrow> 'l
     \<Rightarrow> ('e, 's, 'w, 'g, 'p, 'a) ImageRegistryConfigStorage
         \<times> (error + ('e, 's, 'w, 'g, 'pd, 'a, 'k, 'l) Driver)" where
  "NewDriver pvc_NewDriver GetInstallConfig z cfg kubeconfig listers =
     (case newDriver pvc_NewDriver cfg kubeconfig listers of
        Inl err \<Rightarrow>
          (if err = ErrStorageNotConfigured then
             (case getPlatformStorage GetInstallConfig z kubeconfig of
                (cfg', Some err') \<Rightarrow>
                  (cfg', Inl (Errorf (''unable to get storage configuration from cluster install config: ''
                                      @ Error err')))
              | (cfg', None) \<Rightarrow> (cfg', newDriver pvc_NewDriver cfg' kubeconfig listers))
           else (cfg, Inl err))
      | Inr drv \<Rightarrow> (cfg, Inr drv))"

text \<open>The names of the populated variants, in the order \<open>newDriver\<close> inspects them.\<close>

definition populated :: "('e, 's, 'w, 'g, 'p, 'a) ImageRegistryConfigStorage \<Rightarrow> string list" where
  "populated cfg =
     (if EmptyDir cfg \<noteq> None then [''EmptyDir''] else []) @
     (if S3 cfg \<noteq> None then [''S3''] else []) @
     (if Swift cfg \<noteq> None then [''Swift''] else []) @
     (if GCS cfg \<noteq> None then [''GCS''] else []) @
     (if PVC cfg \<noteq> None then [''PVC''] else []) @
     (if Azure cfg \<noteq> None then [''Azure''] else [])"

section \<open>The managed object and its collaborators (pkg/operator/controller.go)\<close>

text \<open>The verb \<open>%d\<close> on a signed integer.\<close>

definition fmt_int :: "int \<Rightarrow> string" where
  "fmt_int i = (if i < 0 then ''-'' @ fmt_d (nat (- i)) else fmt_d (nat i))"

text \<open>\<open>errors.IsNotFound\<close> and \<open>errors.IsConflict\<close> of the API machinery; both are false on nil.\<close>

fun IsNotFound :: "error option \<Rightarrow> bool" where
  "IsNotFound (Some (StatusError StatusReasonNotFound msg)) = True"
| "IsNotFound _ = False"

fun IsConflict :: "error option \<Rightarrow> bool" where
  "IsConflict (Some (StatusError StatusReasonConflict msg)) = True"
| "IsConflict _ = False"

text \<open>
  \<open>ManagementState\<close> is a string type in the API package; the switch of \<open>sync\<close> names
  three of its values and sends every other one to \<open>default\<close>.
\<close>

datatype ManagementState = Managed | Unmanaged | Removed | OtherState string

datatype ConditionStatus = ConditionTrue | ConditionFalse | ConditionUnknown

datatype ClusterStatusConditionType = OperatorAvailable | OperatorProgressing | OperatorFailing

record OwnerReference =
  APIVersion :: string
  Kind :: string
  Controller :: "bool option"

record ObjectMeta =
  Name :: string
  Namespace :: string
  Generation :: int
  DeletionTimestamp :: "nat option"
  Annotations :: "string \<rightharpoonup> string"
  OwnerReferences :: "OwnerReference list"

text \<open>
  Modelled from the spec: the condition struct is declared outside the two files; section 3
  of the specification gives it a name, a boolean status and a reason string.
\<close>

record OperatorCondition =
  Type :: string
  CondStatus :: ConditionStatus
  Message :: string

record 'st ImageRegistrySpec =
  ManagementState :: ManagementState
  Storage :: 'st

record ImageRegistryStatus =
  ObservedGeneration :: int
  InternalRegistryHostname :: string
  Conditions :: "OperatorCondition list"

record 'st ImageRegistry =
  ObjectMeta :: ObjectMeta
  Spec :: "'st ImageRegistrySpec"
  Status :: ImageRegistryStatus

text \<open>What the watchers' \<open>Get\<close> returns: a service, or an object of another kind.\<close>

record Service =
  Service_ObjectMeta :: ObjectMeta
  Service_Ports :: "int list"

datatype 'o runtime_Object = ServiceObject Service | OtherRuntimeObject 'o

text \<open>The fields of \<open>parameters.Globals\<close> that \<open>sync\<close> and the apply path read.\<close>

record Globals =
  Deployment_Namespace :: string
  Service_Name :: string

text \<open>
  What \<open>Handle\<close> is given: an \<open>interface{}\<close> that is an API object (the managed object
  or another one), a tombstone around a value that may be an API object, or anything else.
\<close>

datatype 'st Object = ImageRegistryObject "'st ImageRegistry" | OtherObject ObjectMeta

datatype 'st Delivered =
    MetaObject "'st Object"
  | DeletedFinalStateUnknown "'st Object option"
  | OtherValue

definition metaOf :: "'st Object \<Rightarrow> ObjectMeta" where
  "metaOf ob = (case ob of ImageRegistryObject cr \<Rightarrow> ObjectMeta cr | OtherObject m \<Rightarrow> m)"

text \<open>\<open>metaapi.GetControllerOf\<close>: the first owner reference whose \<open>Controller\<close> is set and true.\<close>

fun GetControllerOf :: "OwnerReference list \<Rightarrow> OwnerReference option" where
  "GetControllerOf [] = None"
| "GetControllerOf (r # rs) = (if Controller r = Some True then Some r else GetControllerOf rs)"

text \<open>An item taken from the work queue is an \<open>interface{}\<close>: a string, or not.\<close>

datatype Item = StringItem string | OtherItem

definition WORKQUEUE_KEY :: string where
  "WORKQUEUE_KEY = ''changes''"

text \<open>
  Every call the controller makes to a collaborator or to the work queue is appended to a
  log, in program order, with the arguments the properties below speak about.
\<close>

datatype 'st Call =
    NewForConfig_call
  | Get_call string
  | Update_call "'st ImageRegistry"
  | Bootstrap_call
  | finalizeResources_call "'st ImageRegistry"
  | RemoveResources_call
  | clusterStatus_Update_call ClusterStatusConditionType ConditionStatus string
  | conditionRemoved_call ConditionStatus string
  | conditionAvailable_call ConditionStatus string
  | conditionProgressing_call ConditionStatus string
  | conditionFailing_call ConditionStatus string
  | appendFinalizer_call
  | verifyResource_call
  | NewDriver_call
  | ValidateConfiguration_call
  | Apply_call
  | deployments_Get_call string string
  | services_Get_call string string
  | syncStatus_call "error option"
  | addImageRegistryChecksum_call
  | AddRateLimited_call string
  | Forget_call Item
  | Done_call Item

record ('w, 'st) ctx =
  world :: 'w
  calls :: "'st Call list"

text \<open>The objects handed to \<open>Update\<close>, in the order of the calls.\<close>

fun writes :: "'st Call list \<Rightarrow> 'st ImageRegistry list" where
  "writes [] = []"
| "writes (Update_call cr # cs) = cr # writes cs"
| "writes (c # cs) = writes cs"

definition invoke :: "'st Call \<Rightarrow> ('w \<Rightarrow> 'r \<times> 'w) \<Rightarrow> ('w, 'st) ctx \<Rightarrow> 'r \<times> ('w, 'st) ctx" where
  "invoke c f s = (case f (world s) of (r, w) \<Rightarrow> (r, \<lparr>world = w, calls = calls s @ [c]\<rparr>))"

definition queueOp :: "'st Call \<Rightarrow> ('w, 'st) ctx \<Rightarrow> ('w, 'st) ctx" where
  "queueOp c s = s\<lparr>calls := calls s @ [c]\<rparr>"

text \<open>
  The functions and constants that the controller uses and that are defined outside the
  two files. Each is a parameter. A function that takes a pointer returns the object as
  it leaves it; every function may read and change the cluster \<open>'w\<close>. The last field is
  the verb \<open>%q\<close> of Go's \<open>fmt\<close> package on a string (\<open>strconv.Quote\<close>), whose escaping
  rests on the Unicode tables of the Go library.
\<close>

record ('w, 'st, 'drv, 'o) Collaborators =
  NewForConfig :: "'w \<Rightarrow> error option \<times> 'w"
  ImageRegistries_Get :: "string \<Rightarrow> 'w \<Rightarrow> ('st ImageRegistry option \<times> error option) \<times> 'w"
  ImageRegistries_Update :: "'st ImageRegistry \<Rightarrow> 'w \<Rightarrow> error option \<times> 'w"
  Bootstrap :: "'w \<Rightarrow> error option \<times> 'w"
  finalizeResources :: "'st ImageRegistry \<Rightarrow> 'w \<Rightarrow> error option \<times> 'w"
  RemoveResources :: "'st ImageRegistry \<Rightarrow> 'w \<Rightarrow> ('st ImageRegistry \<times> error option) \<times> 'w"
  clusterStatus_Update ::
    "ClusterStatusConditionType \<Rightarrow> ConditionStatus \<Rightarrow> string \<Rightarrow> 'w \<Rightarrow> error option \<times> 'w"
  conditionRemoved ::
    "'st ImageRegistry \<Rightarrow> ConditionStatus \<Rightarrow> string \<Rightarrow> bool \<Rightarrow> 'w \<Rightarrow> ('st ImageRegistry \<times> bool) \<times> 'w"
  conditionAvailable ::
    "'st ImageRegistry \<Rightarrow> ConditionStatus \<Rightarrow> string \<Rightarrow> bool \<Rightarrow> 'w \<Rightarrow> ('st ImageRegistry \<times> bool) \<times> 'w"
  conditionProgressing ::
    "'st ImageRegistry \<Rightarrow> ConditionStatus \<Rightarrow> string \<Rightarrow> bool \<Rightarrow> 'w \<Rightarrow> ('st ImageRegistry \<times> bool) \<times> 'w"
  conditionFailing ::
    "'st ImageRegistry \<Rightarrow> ConditionStatus \<Rightarrow> string \<Rightarrow> bool \<Rightarrow> 'w \<Rightarrow> ('st ImageRegistry \<times> bool) \<times> 'w"
  appendFinalizer :: "'st ImageRegistry \<Rightarrow> bool \<Rightarrow> 'w \<Rightarrow> ('st ImageRegistry \<times> bool) \<times> 'w"
  verifyResource :: "'st ImageRegistry \<Rightarrow> Globals \<Rightarrow> 'w \<Rightarrow> ('st ImageRegistry \<times> error option) \<times> 'w"
  storage_NewDriver :: "string \<Rightarrow> string \<Rightarrow> 'st \<Rightarrow> 'w \<Rightarrow> ('st \<times> (error + 'drv)) \<times> 'w"
  ValidateConfiguration ::
    "'drv \<Rightarrow> 'st ImageRegistry \<Rightarrow> bool \<Rightarrow> 'w \<Rightarrow> ('st ImageRegistry \<times> bool \<times> error option) \<times> 'w"
  generator_Apply ::
    "'st ImageRegistry \<Rightarrow> bool \<Rightarrow> 'w \<Rightarrow> ('st ImageRegistry \<times> bool \<times> error option) \<times> 'w"
  deployments_Get :: "string \<Rightarrow> string \<Rightarrow> 'w \<Rightarrow> ('o runtime_Object option \<times> error option) \<times> 'w"
  services_Get :: "string \<Rightarrow> string \<Rightarrow> 'w \<Rightarrow> ('o runtime_Object option \<times> error option) \<times> 'w"
  syncStatus ::
    "'st ImageRegistry \<Rightarrow> 'o runtime_Object option \<Rightarrow> error option \<Rightarrow> bool \<Rightarrow> 'w
       \<Rightarrow> ('st ImageRegistry \<times> bool) \<times> 'w"
  addImageRegistryChecksum :: "'st ImageRegistry \<Rightarrow> 'w \<Rightarrow> 'st ImageRegistry \<times> 'w"
  Checksum :: "'st ImageRegistrySpec \<times> ImageRegistryStatus \<Rightarrow> error + string"
  resourceName :: "string \<Rightarrow> string"
  ChecksumOperatorAnnotation :: string
  SchemeGroupVersion :: string
  fmt_q :: "string \<Rightarrow> string"

section \<open>The apply path\<close>

text \<open>
  \<open>createOrUpdateResources\<close> (lines 105-131). The driver resolver writes the configuration it
  inferred back through \<open>&cr.Spec.Storage\<close>. Calls to the logger are left out throughout.
\<close>

definition createOrUpdateResources ::
  "('w, 'st, 'drv, 'o) Collaborators \<Rightarrow> Globals \<Rightarrow> 'st ImageRegistry \<Rightarrow> bool \<Rightarrow> ('w, 'st) ctx
     \<Rightarrow> ('st ImageRegistry \<times> bool \<times> error option) \<times> ('w, 'st) ctx" where
  "createOrUpdateResources E params cr modified s =
     (case invoke appendFinalizer_call (appendFinalizer E cr modified) s of
        ((cr, modified), s) \<Rightarrow>
     (case invoke verifyResource_call (verifyResource E cr params) s of
        ((cr, Some err), s) \<Rightarrow>
          ((cr, modified, Some (Errorf (''unable to complete resource: '' @ Error err))), s)
      | ((cr, None), s) \<Rightarrow>
     (case invoke NewDriver_call
             (storage_NewDriver E (Name (ObjectMeta cr)) (Deployment_Namespace params)
                (Storage (Spec cr))) s of
        ((storage, Inl err), s) \<Rightarrow>
          (let cr = cr\<lparr>Spec := (Spec cr)\<lparr>Storage := storage\<rparr>\<rparr> in
           if err = ErrStorageNotConfigured
             then ((cr, modified, Some (permanentError err)), s)
             else ((cr, modified, Some (Errorf (''unable to create storage driver: '' @ Error err))), s))
      | ((storage, Inr driver), s) \<Rightarrow>
          (let cr = cr\<lparr>Spec := (Spec cr)\<lparr>Storage := storage\<rparr>\<rparr> in
     (case invoke ValidateConfiguration_call (ValidateConfiguration E driver cr modified) s of
        ((cr, modified, Some err), s) \<Rightarrow>
          ((cr, modified, Some (permanentError (Errorf (''invalid configuration: '' @ Error err)))), s)
      | ((cr, modified, None), s) \<Rightarrow>
          invoke Apply_call (generator_Apply E cr modified) s)))))"

definition CreateOrUpdateResources ::
  "('w, 'st, 'drv, 'o) Collaborators \<Rightarrow> Globals \<Rightarrow> 'st ImageRegistry \<Rightarrow> bool \<Rightarrow> ('w, 'st) ctx
     \<Rightarrow> ('st ImageRegistry \<times> bool \<times> error option) \<times> ('w, 'st) ctx" where
  "CreateOrUpdateResources E params cr modified s =
     (if ManagementState (Spec cr) \<noteq> Managed then ((cr, modified, None), s)
      else createOrUpdateResources E params cr modified s)"

text \<open>An error is classified permanent by its dynamic type, \<open>permanentError\<close>.\<close>

fun isPermanent :: "error \<Rightarrow> bool" where
  "isPermanent (permanentError e) = True"
| "isPermanent _ = False"

section \<open>The event callback\<close>

text \<open>
  \<open>Handle\<close> (lines 141-188). The type assertion \<open>o.(*regopapi.ImageRegistry)\<close> is on the
  delivered value itself, so a tombstone around the managed object takes the \<open>else\<close> branch.
\<close>

definition Handle ::
  "('w, 'st, 'drv, 'o) Collaborators \<Rightarrow> string \<Rightarrow> 'st Delivered \<Rightarrow> ('w, 'st) ctx \<Rightarrow> ('w, 'st) ctx" where
  "Handle E action ob s =
     (case (case ob of MetaObject x \<Rightarrow> Some x
                     | DeletedFinalStateUnknown (Some x) \<Rightarrow> Some x
                     | _ \<Rightarrow> None) of
        None \<Rightarrow> s
      | Some object \<Rightarrow>
          (case ob of
             MetaObject (ImageRegistryObject cr) \<Rightarrow>
               (let dgst = (case Checksum E (Spec cr, Status cr) of Inl err \<Rightarrow> '''' | Inr d \<Rightarrow> d) in
                case Annotations (metaOf object) (ChecksumOperatorAnnotation E) of
                  Some curdgst \<Rightarrow>
                    if dgst = curdgst then s else queueOp (AddRateLimited_call WORKQUEUE_KEY) s
                | None \<Rightarrow> queueOp (AddRateLimited_call WORKQUEUE_KEY) s)
           | _ \<Rightarrow>
               (case GetControllerOf (OwnerReferences (metaOf object)) of
                  None \<Rightarrow> s
                | Some ownerRef \<Rightarrow>
                    if Kind ownerRef \<noteq> ''ImageRegistry'' \<or> APIVersion ownerRef \<noteq> SchemeGroupVersion E
                      then s
                      else queueOp (AddRateLimited_call WORKQUEUE_KEY) s)))"

section \<open>The reconcile pass\<close>

text \<open>A pass returns an error or nil, or panics (a nil dereference, a failed type assertion,
  an index out of range).\<close>

datatype Outcome = Returns "error option" | Panics

text \<open>
  The switch on \<open>cr.Spec.ManagementState\<close> (lines 213-237): the object, the flag
  \<open>statusChanged\<close> and \<open>applyError\<close> as they leave it.
\<close>

definition sync_switch ::
  "('w, 'st, 'drv, 'o) Collaborators \<Rightarrow> Globals \<Rightarrow> 'st ImageRegistry \<Rightarrow> ('w, 'st) ctx
     \<Rightarrow> ('st ImageRegistry \<times> bool \<times> error option) \<times> ('w, 'st) ctx" where
  "sync_switch E params cr s =
     (let statusChanged = False; applyError = None in
      case ManagementState (Spec cr) of
        Removed \<Rightarrow>
          (case invoke RemoveResources_call (RemoveResources E cr) s of
             ((cr, Some err), s) \<Rightarrow>
               (case invoke (clusterStatus_Update_call OperatorFailing ConditionTrue ''unable to remove registry'')
                       (clusterStatus_Update E OperatorFailing ConditionTrue ''unable to remove registry'') s of
                  (errOp, s) \<Rightarrow>
               (case invoke (conditionProgressing_call ConditionTrue (''unable to remove objects: '' @ Error err))
                       (conditionProgressing E cr ConditionTrue (''unable to remove objects: '' @ Error err)
                          statusChanged) s of
                  ((cr, statusChanged), s) \<Rightarrow> ((cr, statusChanged, applyError), s)))
           | ((cr, None), s) \<Rightarrow>
               (case invoke (conditionRemoved_call ConditionTrue '''')
                       (conditionRemoved E cr ConditionTrue '''' statusChanged) s of
                  ((cr, statusChanged), s) \<Rightarrow>
               (case invoke (conditionAvailable_call ConditionFalse '''')
                       (conditionAvailable E cr ConditionFalse '''' statusChanged) s of
                  ((cr, statusChanged), s) \<Rightarrow>
               (case invoke (conditionProgressing_call ConditionFalse '''')
                       (conditionProgressing E cr ConditionFalse '''' statusChanged) s of
                  ((cr, statusChanged), s) \<Rightarrow>
               (case invoke (conditionFailing_call ConditionFalse '''')
                       (conditionFailing E cr ConditionFalse '''' statusChanged) s of
                  ((cr, statusChanged), s) \<Rightarrow> ((cr, statusChanged, applyError), s))))))
      | Managed \<Rightarrow>
          (case invoke (conditionRemoved_call ConditionFalse '''')
                  (conditionRemoved E cr ConditionFalse '''' statusChanged) s of
             ((cr, statusChanged), s) \<Rightarrow> CreateOrUpdateResources E params cr statusChanged s)
      | Unmanaged \<Rightarrow> ((cr, statusChanged, applyError), s)
      | OtherState x \<Rightarrow> ((cr, statusChanged, applyError), s))"

text \<open>
  Lines 239-260: the deployment and the service are read from the watchers' caches; the map
  \<open>c.watchers\<close> is the one that \<open>Run\<close> installs, which has both keys. An early return or
  a panic is \<open>Inl\<close>; otherwise the deployment as \<open>syncStatus\<close> will get it, the object and
  the flag.
\<close>

definition sync_observe ::
  "('w, 'st, 'drv, 'o) Collaborators \<Rightarrow> Globals \<Rightarrow> 'st ImageRegistry \<Rightarrow> bool \<Rightarrow> error option
     \<Rightarrow> ('w, 'st) ctx
     \<Rightarrow> (Outcome + 'o runtime_Object option \<times> 'st ImageRegistry \<times> bool) \<times> ('w, 'st) ctx" where
  "sync_observe E params cr statusChanged applyError s =
     (case invoke (deployments_Get_call (Name (ObjectMeta cr)) (Deployment_Namespace params))
             (deployments_Get E (Name (ObjectMeta cr)) (Deployment_Namespace params)) s of
        ((deploy, err), s) \<Rightarrow>
          (case (case err of
                   None \<Rightarrow> Inr deploy
                 | Some e \<Rightarrow> if IsNotFound err then Inr None else Inl e) of
             Inl e \<Rightarrow>
               (Inl (Returns (Some (Errorf (''failed to get '' @ fmt_q E (Name (ObjectMeta cr))
                                             @ '' deployment: '' @ Error e)))), s)
           | Inr deployInterface \<Rightarrow>
             if applyError = None then
               (case invoke (services_Get_call (Service_Name params) (Deployment_Namespace params))
                       (services_Get E (Service_Name params) (Deployment_Namespace params)) s of
                  ((svc, None), s) \<Rightarrow>
                    (case svc of
                       Some (ServiceObject svcObj) \<Rightarrow>
                         (case Service_Ports svcObj of
                            [] \<Rightarrow> (Inl Panics, s)
                          | port # ports \<Rightarrow>
                              (let svcHostname = Name (Service_ObjectMeta svcObj) @ ''.''
                                     @ Namespace (Service_ObjectMeta svcObj)
                                     @ ''.svc.cluster.local:'' @ fmt_int port in
                               if InternalRegistryHostname (Status cr) \<noteq> svcHostname
                                 then (Inr (deployInterface,
                                         cr\<lparr>Status := (Status cr)\<lparr>InternalRegistryHostname := svcHostname\<rparr>\<rparr>,
                                         True), s)
                                 else (Inr (deployInterface, cr, statusChanged), s)))
                     | _ \<Rightarrow> (Inl Panics, s))
                | ((svc, Some err), s) \<Rightarrow>
                    if \<not> IsNotFound (Some err) then
                      (Inl (Returns (Some (Errorf (''failed to get '' @ fmt_q E (Service_Name params)
                                                    @ '' service '' @ Error err)))), s)
                    else (Inr (deployInterface, cr, statusChanged), s))
             else (Inr (deployInterface, cr, statusChanged), s)))"

text \<open>
  Lines 262-276: \<open>syncStatus\<close>, then the write, guarded by the flag \<open>statusChanged\<close>. The
  error of \<open>Update\<close> is only logged.
\<close>

definition sync_write ::
  "('w, 'st, 'drv, 'o) Collaborators \<Rightarrow> 'st ImageRegistry \<Rightarrow> 'o runtime_Object option \<Rightarrow> error option
     \<Rightarrow> bool \<Rightarrow> ('w, 'st) ctx \<Rightarrow> Outcome \<times> ('w, 'st) ctx" where
  "sync_write E cr deployInterface applyError statusChanged s =
     (case invoke (syncStatus_call applyError) (syncStatus E cr deployInterface applyError statusChanged) s of
        ((cr, statusChanged), s) \<Rightarrow>
          if statusChanged then
            (let cr = cr\<lparr>Status := (Status cr)\<lparr>ObservedGeneration := Generation (ObjectMeta cr)\<rparr>\<rparr> in
             case invoke addImageRegistryChecksum_call (addImageRegistryChecksum E cr) s of
               (cr, s) \<Rightarrow>
             (case invoke (Update_call cr) (ImageRegistries_Update E cr) s of
               (err, s) \<Rightarrow> (Returns None, s)))
          else (Returns None, s))"

text \<open>\<open>sync\<close> (lines 190-277).\<close>

definition sync ::
  "('w, 'st, 'drv, 'o) Collaborators \<Rightarrow> Globals \<Rightarrow> ('w, 'st) ctx \<Rightarrow> Outcome \<times> ('w, 'st) ctx" where
  "sync E params s =
     (case invoke NewForConfig_call (NewForConfig E) s of
        (Some err, s) \<Rightarrow> (Returns (Some err), s)
      | (None, s) \<Rightarrow>
     (case invoke (Get_call (resourceName E (Deployment_Namespace params)))
             (ImageRegistries_Get E (resourceName E (Deployment_Namespace params))) s of
        ((cr, Some err), s) \<Rightarrow>
          if \<not> IsNotFound (Some err) then
            (case cr of
               None \<Rightarrow> (Panics, s)
             | Some cr \<Rightarrow>
                 (Returns (Some (Errorf (''failed to get '' @ fmt_q E (Name (ObjectMeta cr))
                                          @ '' custom resource: '' @ Error err))), s))
          else (Returns None, s)
      | ((None, None), s) \<Rightarrow>
          (case invoke Bootstrap_call (Bootstrap E) s of (err, s) \<Rightarrow> (Returns err, s))
      | ((Some cr, None), s) \<Rightarrow>
          if DeletionTimestamp (ObjectMeta cr) \<noteq> None then
            (case invoke (finalizeResources_call cr) (finalizeResources E cr) s of
               (err, s) \<Rightarrow> (Returns err, s))
          else
            (case sync_switch E params cr s of
               ((cr, statusChanged, applyError), s) \<Rightarrow>
            (case sync_observe E params cr statusChanged applyError s of
               (Inl out, s) \<Rightarrow> (out, s)
             | (Inr (deployInterface, cr, statusChanged), s) \<Rightarrow>
                 sync_write E cr deployInterface applyError statusChanged s))))"

section \<open>The worker\<close>

text \<open>
  The closure that \<open>eventProcessor\<close> runs for each item (lines 287-305). The deferred
  \<open>Done\<close> runs on every way out, a panic included.
\<close>

definition processItem ::
  "('w, 'st, 'drv, 'o) Collaborators \<Rightarrow> Globals \<Rightarrow> Item \<Rightarrow> ('w, 'st) ctx \<Rightarrow> Outcome \<times> ('w, 'st) ctx" where
  "processItem E params obj s =
     (case obj of
        OtherItem \<Rightarrow> (Returns None, queueOp (Done_call obj) (queueOp (Forget_call obj) s))
      | StringItem key \<Rightarrow>
          (case sync E params s of
             (Panics, s) \<Rightarrow> (Panics, queueOp (Done_call obj) s)
           | (Returns (Some err), s) \<Rightarrow>
               (Returns (Some (Errorf (''unable to sync: '' @ Error err @ '', requeuing''))),
                queueOp (Done_call obj) (queueOp (AddRateLimited_call WORKQUEUE_KEY) s))
           | (Returns None, s) \<Rightarrow>
               (Returns None, queueOp (Done_call obj) (queueOp (Forget_call obj) s))))"

text \<open>
  \<open>eventProcessor\<close> (lines 279-311) loops on \<open>workqueue.Get\<close>. The list holds what the
  successive calls of \<open>Get\<close> deliver, the item and the shutdown flag; when it is used up
  the worker is blocked in \<open>Get\<close>.
\<close>

datatype Worker = Exited | Crashed | Blocked

fun eventProcessor ::
  "('w, 'st, 'drv, 'o) Collaborators \<Rightarrow> Globals \<Rightarrow> (Item \<times> bool) list \<Rightarrow> ('w, 'st) ctx
     \<Rightarrow> Worker \<times> ('w, 'st) ctx" where
  "eventProcessor E params [] s = (Blocked, s)"
| "eventProcessor E params ((obj, shutdown) # deliveries) s =
     (if shutdown then (Exited, s)
      else (case processItem E params obj s of
              (Panics, s) \<Rightarrow> (Crashed, s)
            | (Returns err, s) \<Rightarrow> eventProcessor E params deliveries s))"

section \<open>A simulated cluster\<close>

text \<open>
  The theorems below hold for every choice of the collaborators. To run the controller on
  concrete inputs, this section fixes one choice: a small simulated cluster whose state
  says what each collaborator answers. Storage parameters, the kubeconfig and the listers
  are numbers here.
\<close>

type_synonym SimStorage = "(nat, nat, nat, nat, nat, nat) ImageRegistryConfigStorage"

type_synonym SimDriver = "(nat, nat, nat, nat, nat, nat, nat, nat) Driver"

definition simPVC :: "nat \<Rightarrow> nat \<Rightarrow> error + nat" where
  "simPVC c kubeconfig = Inr c"

definition brokenPVC :: "nat \<Rightarrow> nat \<Rightarrow> error + nat" where
  "brokenPVC c kubeconfig = Inl (Errorf ''unable to build kubernetes client'')"

definition simZeros :: "(nat, nat, nat, nat) zeroStructs" where
  "simZeros = \<lparr>zeroEmptyDir = 0, zeroS3 = 0, zeroSwift = 0, zeroAzure = 0\<rparr>"

definition noPlatform :: "(nat, nat, nat, nat) Platform" where
  "noPlatform = \<lparr>Platform_Libvirt = None, Platform_AWS = None, Platform_Azure = None,
                  Platform_OpenStack = None\<rparr>"

definition installOn :: "(nat, nat, nat, nat) Platform \<Rightarrow> nat \<Rightarrow> error + (nat, nat, nat, nat) InstallConfig" where
  "installOn p kubeconfig = Inr \<lparr>Platform = p\<rparr>"

record Cluster =
  sim_stored :: "SimStorage ImageRegistry option"
  sim_platform :: "(nat, nat, nat, nat) Platform"
  sim_removeError :: "error option"
  sim_finalizeError :: "error option"
  sim_validateError :: "error option"
  sim_applyChanges :: bool
  sim_applyError :: "error option"
  sim_deployment :: bool
  sim_service :: "Service option"

definition stateName :: "ManagementState \<Rightarrow> string" where
  "stateName m = (case m of Managed \<Rightarrow> ''Managed'' | Unmanaged \<Rightarrow> ''Unmanaged''
                  | Removed \<Rightarrow> ''Removed'' | OtherState x \<Rightarrow> x)"

definition conditionText :: "OperatorCondition \<Rightarrow> string" where
  "conditionText c = Type c @ ''=''
     @ (case CondStatus c of ConditionTrue \<Rightarrow> ''True'' | ConditionFalse \<Rightarrow> ''False''
        | ConditionUnknown \<Rightarrow> ''Unknown'')
     @ ''('' @ Message c @ '')''"

text \<open>The simulated fingerprint: a rendering of the fields of \<open>Spec\<close> and \<open>Status\<close>.\<close>

definition simChecksum :: "SimStorage ImageRegistrySpec \<times> ImageRegistryStatus \<Rightarrow> error + string" where
  "simChecksum x =
     (case x of (sp, st) \<Rightarrow>
        Inr (stateName (ManagementState sp) @ fmt_v (populated (Storage sp))
             @ fmt_int (ObservedGeneration st) @ ''/'' @ InternalRegistryHostname st
             @ fmt_v (map conditionText (Conditions st))))"

definition simAnnotation :: string where
  "simAnnotation = ''imageregistry.operator.openshift.io/checksum''"

text \<open>
  Modelled from the spec: \<open>addImageRegistryChecksum\<close> is defined outside the two files;
  section 4.4 of the specification stores the fingerprint of \<open>Spec\<close> and \<open>Status\<close> as an
  annotation on the object.
\<close>

definition simAddChecksum :: "SimStorage ImageRegistry \<Rightarrow> SimStorage ImageRegistry" where
  "simAddChecksum cr =
     (case simChecksum (Spec cr, Status cr) of
        Inl err \<Rightarrow> cr
      | Inr d \<Rightarrow> cr\<lparr>ObjectMeta := (ObjectMeta cr)\<lparr>Annotations :=
                       (Annotations (ObjectMeta cr))(simAnnotation \<mapsto> d)\<rparr>\<rparr>)"

text \<open>
  Modelled from the spec: the condition setters are defined outside the two files;
  section 3 of the specification has named conditions that are set and never dropped, and
  section 4.2 writes the status back when a condition changed.
\<close>

fun updateCondition ::
  "string \<Rightarrow> ConditionStatus \<Rightarrow> string \<Rightarrow> OperatorCondition list \<Rightarrow> OperatorCondition list \<times> bool" where
  "updateCondition t st msg [] = ([\<lparr>Type = t, CondStatus = st, Message = msg\<rparr>], True)"
| "updateCondition t st msg (c # cs) =
     (if Type c = t then
        (if CondStatus c = st \<and> Message c = msg then (c # cs, False)
         else (\<lparr>Type = t, CondStatus = st, Message = msg\<rparr> # cs, True))
      else (case updateCondition t st msg cs of (cs', changed) \<Rightarrow> (c # cs', changed)))"

definition simCondition ::
  "string \<Rightarrow> SimStorage ImageRegistry \<Rightarrow> ConditionStatus \<Rightarrow> string \<Rightarrow> bool \<Rightarrow> Cluster
     \<Rightarrow> (SimStorage ImageRegistry \<times> bool) \<times> Cluster" where
  "simCondition t cr st msg modified w =
     (case updateCondition t st msg (Conditions (Status cr)) of
        (cs, changed) \<Rightarrow>
          ((cr\<lparr>Status := (Status cr)\<lparr>Conditions := cs\<rparr>\<rparr>, modified \<or> changed), w))"

definition notFound :: error where
  "notFound = StatusError StatusReasonNotFound ''not found''"

definition zeroImageRegistry :: "SimStorage ImageRegistry" where
  "zeroImageRegistry =
     \<lparr>ObjectMeta = \<lparr>Name = [], Namespace = [], Generation = 0, DeletionTimestamp = None,
                     Annotations = Map.empty, OwnerReferences = []\<rparr>,
      Spec = \<lparr>ManagementState = OtherState [], Storage = zeroStorage\<rparr>,
      Status = \<lparr>ObservedGeneration = 0, InternalRegistryHostname = [], Conditions = []\<rparr>\<rparr>"

text \<open>
  The names of the simulated cluster are made of letters, digits, dots and hyphens, which
  \<open>%q\<close> puts between double quotes as they are.
\<close>

definition simQuote :: "string \<Rightarrow> string" where
  "simQuote name = [CHR 0x22] @ name @ [CHR 0x22]"

definition simCluster :: "(Cluster, SimStorage, SimDriver, unit) Collaborators" where
  "simCluster =
     \<lparr>NewForConfig = (\<lambda>w. (None, w)),
      ImageRegistries_Get = (\<lambda>name w. case sim_stored w of
           None \<Rightarrow> ((Some zeroImageRegistry, Some notFound), w)
         | Some cr \<Rightarrow> ((Some cr, None), w)),
      ImageRegistries_Update = (\<lambda>cr w. (None, w\<lparr>sim_stored := Some cr\<rparr>)),
      Bootstrap = (\<lambda>w. (None, w)),
      finalizeResources = (\<lambda>cr w. case sim_finalizeError w of
           None \<Rightarrow> (None, w\<lparr>sim_stored := None\<rparr>)
         | Some err \<Rightarrow> (Some err, w)),
      RemoveResources = (\<lambda>cr w. ((cr, sim_removeError w), w)),
      clusterStatus_Update = (\<lambda>t st msg w. (None, w)),
      conditionRemoved = simCondition ''Removed'',
      conditionAvailable = simCondition ''Available'',
      conditionProgressing = simCondition ''Progressing'',
      conditionFailing = simCondition ''Failing'',
      appendFinalizer = (\<lambda>cr modified w. ((cr, modified), w)),
      verifyResource = (\<lambda>cr params w. ((cr, None), w)),
      storage_NewDriver = (\<lambda>name namespace cfg w.
           (NewDriver simPVC (installOn (sim_platform w)) simZeros cfg 0 0, w)),
      ValidateConfiguration = (\<lambda>driver cr modified w. ((cr, modified, sim_validateError w), w)),
      generator_Apply = (\<lambda>cr modified w.
           ((cr, modified \<or> sim_applyChanges w, sim_applyError w), w)),
      deployments_Get = (\<lambda>name namespace w.
           if sim_deployment w then ((Some (OtherRuntimeObject ()), None), w)
           else ((None, Some notFound), w)),
      services_Get = (\<lambda>name namespace w. case sim_service w of
           None \<Rightarrow> ((None, Some notFound), w)
         | Some svc \<Rightarrow> ((Some (ServiceObject svc), None), w)),
      syncStatus = (\<lambda>cr deploy applyError statusChanged w. ((cr, statusChanged), w)),
      addImageRegistryChecksum = (\<lambda>cr w. (simAddChecksum cr, w)),
      Checksum = simChecksum,
      resourceName = (\<lambda>namespace. ''image-registry''),
      ChecksumOperatorAnnotation = simAnnotation,
      SchemeGroupVersion = ''imageregistry.operator.openshift.io/v1alpha1'',
      fmt_q = simQuote\<rparr>"

definition simParams :: Globals where
  "simParams = \<lparr>Deployment_Namespace = ''openshift-image-registry'', Service_Name = ''image-registry''\<rparr>"

definition simService :: Service where
  "simService =
     \<lparr>Service_ObjectMeta = \<lparr>Name = ''image-registry'', Namespace = ''openshift-image-registry'',
                             Generation = 1, DeletionTimestamp = None, Annotations = Map.empty,
                             OwnerReferences = []\<rparr>,
      Service_Ports = [5000]\<rparr>"

text \<open>
  A managed object on S3 whose status is up to date, with the fingerprint of its \<open>Spec\<close>
  and \<open>Status\<close> in its annotation; and variants of it.
\<close>

definition simObject :: "SimStorage ImageRegistry" where
  "simObject = simAddChecksum
     \<lparr>ObjectMeta = \<lparr>Name = ''image-registry'', Namespace = [], Generation = 1,
                     DeletionTimestamp = None, Annotations = Map.empty, OwnerReferences = []\<rparr>,
      Spec = \<lparr>ManagementState = Managed, Storage = zeroStorage\<lparr>S3 := Some 7\<rparr>\<rparr>,
      Status = \<lparr>ObservedGeneration = 1,
                 InternalRegistryHostname = ''image-registry.openshift-image-registry.svc.cluster.local:5000'',
                 Conditions = [\<lparr>Type = ''Removed'', CondStatus = ConditionFalse, Message = []\<rparr>,
                               \<lparr>Type = ''Failing'', CondStatus = ConditionFalse, Message = []\<rparr>]\<rparr>\<rparr>"

definition withState :: "ManagementState \<Rightarrow> SimStorage ImageRegistry \<Rightarrow> SimStorage ImageRegistry" where
  "withState m cr = cr\<lparr>Spec := (Spec cr)\<lparr>ManagementState := m\<rparr>\<rparr>"

definition withStorage :: "SimStorage \<Rightarrow> SimStorage ImageRegistry \<Rightarrow> SimStorage ImageRegistry" where
  "withStorage cfg cr = cr\<lparr>Spec := (Spec cr)\<lparr>Storage := cfg\<rparr>\<rparr>"

definition withConditions ::
  "OperatorCondition list \<Rightarrow> SimStorage ImageRegistry \<Rightarrow> SimStorage ImageRegistry" where
  "withConditions cs cr = cr\<lparr>Status := (Status cr)\<lparr>Conditions := cs\<rparr>\<rparr>"

definition deleting :: "SimStorage ImageRegistry \<Rightarrow> SimStorage ImageRegistry" where
  "deleting cr = cr\<lparr>ObjectMeta := (ObjectMeta cr)\<lparr>DeletionTimestamp := Some 1541030400\<rparr>\<rparr>"

definition simWorld :: Cluster where
  "simWorld =
     \<lparr>sim_stored = Some simObject,
      sim_platform = noPlatform\<lparr>Platform_AWS := Some 0\<rparr>,
      sim_removeError = None,
      sim_finalizeError = None,
      sim_validateError = None,
      sim_applyChanges = False,
      sim_applyError = None,
      sim_deployment = True,
      sim_service = Some simService\<rparr>"

definition start :: "Cluster \<Rightarrow> (Cluster, SimStorage) ctx" where
  "start w = \<lparr>world = w, calls = []\<rparr>"

text \<open>Storage configurations with one, two and no populated variants.\<close>

definition onlyS3 :: SimStorage where
  "onlyS3 = zeroStorage\<lparr>S3 := Some 7\<rparr>"

definition onlyPVC :: SimStorage where
  "onlyPVC = zeroStorage\<lparr>PVC := Some 3\<rparr>"

definition s3AndGCS :: SimStorage where
  "s3AndGCS = zeroStorage\<lparr>S3 := Some 7, GCS := Some 9\<rparr>"

definition s3AndPVC :: SimStorage where
  "s3AndPVC = zeroStorage\<lparr>S3 := Some 7, PVC := Some 3\<rparr>"

definition unconfigured :: SimStorage where
  "unconfigured = zeroStorage"

section \<open>Auxiliary facts\<close>

lemma sublist_in_right: "sublist n ys \<Longrightarrow> sublist n (xs @ ys)"
proof -
  assume "sublist n ys"
  then obtain ps ss where "ys = ps @ n @ ss" by (auto simp: sublist_def)
  then have "xs @ ys = (xs @ ps) @ n @ ss" by simp
  then show ?thesis unfolding sublist_def by blast
qed

lemma sublist_in_left: "sublist n xs \<Longrightarrow> sublist n (xs @ ys)"
proof -
  assume "sublist n xs"
  then obtain ps ss where "xs = ps @ n @ ss" by (auto simp: sublist_def)
  then have "xs @ ys = ps @ n @ (ss @ ys)" by simp
  then show ?thesis unfolding sublist_def by blast
qed

lemma sublist_join_sp: "n \<in> set names \<Longrightarrow> sublist n (join_sp names)"
proof (induction names rule: join_sp.induct)
  case 1
  then show ?case by simp
next
  case (2 x)
  then show ?case by simp
next
  case (3 x y ys)
  show ?case
  proof (cases "n = x")
    case True
    then show ?thesis by simp
  next
    case False
    with 3 have "sublist n (join_sp (y # ys))" by simp
    then have "sublist n (x @ ('' '' @ join_sp (y # ys)))"
      by (intro sublist_in_right)
    then show ?thesis by simp
  qed
qed

lemma sublist_fmt_v: "n \<in> set names \<Longrightarrow> sublist n (pre @ fmt_v names)"
  unfolding fmt_v_def
  by (intro sublist_in_right sublist_in_left sublist_join_sp)

lemma newDriver_one:
  assumes "length (populated cfg) = 1"
  shows "(\<forall>c. EmptyDir cfg = Some c \<longrightarrow> newDriver pvc cfg k l = Inr (EmptyDirDriver c l))
       \<and> (\<forall>c. S3 cfg = Some c \<longrightarrow> newDriver pvc cfg k l = Inr (S3Driver c k l))
       \<and> (\<forall>c. Swift cfg = Some c \<longrightarrow> newDriver pvc cfg k l = Inr (SwiftDriver c l))
       \<and> (\<forall>c. GCS cfg = Some c \<longrightarrow> newDriver pvc cfg k l = Inr (GCSDriver c l))
       \<and> (\<forall>c. Azure cfg = Some c \<longrightarrow> newDriver pvc cfg k l = Inr (AzureDriver c k l))
       \<and> (\<forall>c. PVC cfg = Some c \<longrightarrow>
             newDriver pvc cfg k l = (case pvc c k of Inl err \<Rightarrow> Inl err | Inr d \<Rightarrow> Inr (PVCDriver d)))"
  using assms
  by (cases "EmptyDir cfg"; cases "S3 cfg"; cases "Swift cfg"; cases "GCS cfg"; cases "PVC cfg";
      cases "Azure cfg")
     (simp_all add: populated_def newDriver_def selectDriver_def split: sum.splits)

lemma fmt_d_2: "fmt_d 2 = ''2''"
  by (simp add: fmt_d.simps digit_def)

lemma newDriver_many:
  assumes "2 \<le> length (populated cfg)" and "\<forall>c. PVC cfg = Some c \<longrightarrow> (\<exists>d. pvc c k = Inr d)"
  shows "newDriver pvc cfg k l =
           Inl (Errorf (ambiguousMessage (length (populated cfg)) (populated cfg)))"
  using assms
  by (cases "EmptyDir cfg"; cases "S3 cfg"; cases "Swift cfg"; cases "GCS cfg"; cases "PVC cfg";
      cases "Azure cfg")
     (auto simp add: populated_def newDriver_def selectDriver_def split: sum.splits)

lemma sublist_ambiguousMessage: "n \<in> set names \<Longrightarrow> sublist n (ambiguousMessage k names)"
proof -
  assume "n \<in> set names"
  then have "sublist n ((''exactly one storage type should be configured at the same time, got ''
                 @ fmt_d k @ '': '') @ fmt_v names)"
    by (rule sublist_fmt_v)
  then show ?thesis by (simp add: ambiguousMessage_def)
qed

lemma newDriver_none:
  "populated cfg = [] \<Longrightarrow> newDriver pvc cfg k l = Inl ErrStorageNotConfigured"
  by (cases "EmptyDir cfg"; cases "S3 cfg"; cases "Swift cfg"; cases "GCS cfg"; cases "PVC cfg";
      cases "Azure cfg")
     (simp_all add: populated_def newDriver_def selectDriver_def split: if_splits)

lemma NewDriver_ok: "newDriver pvc cfg k l = Inr drv \<Longrightarrow> NewDriver pvc gic z cfg k l = (cfg, Inr drv)"
  by (simp add: NewDriver_def)

lemma NewDriver_other_error:
  "newDriver pvc cfg k l = Inl err \<Longrightarrow> err \<noteq> ErrStorageNotConfigured
     \<Longrightarrow> NewDriver pvc gic z cfg k l = (cfg, Inl err)"
  by (simp add: NewDriver_def)

lemma simChecksum_total: "\<exists>d. simChecksum x = Inr d"
  by (simp add: simChecksum_def split: prod.splits)

lemma simAddChecksum_fields:
  assumes "simChecksum (Spec cr, Status cr) = Inr d"
  shows "Spec (simAddChecksum cr) = Spec cr"
    and "Status (simAddChecksum cr) = Status cr"
    and "Annotations (ObjectMeta (simAddChecksum cr)) simAnnotation = Some d"
  using assms by (simp_all add: simAddChecksum_def)

text \<open>What the simulated collaborators answer.\<close>

lemma sim_NewForConfig: "NewForConfig simCluster w = (None, w)"
  by (simp only: simCluster_def Collaborators.select_convs)

lemma sim_Get:
  "ImageRegistries_Get simCluster name w =
     (case sim_stored w of None \<Rightarrow> ((Some zeroImageRegistry, Some notFound), w)
      | Some cr \<Rightarrow> ((Some cr, None), w))"
  by (simp only: simCluster_def Collaborators.select_convs)

lemma sim_resourceName: "resourceName simCluster ns = ''image-registry''"
  by (simp only: simCluster_def Collaborators.select_convs)

lemma sim_finalizeResources:
  "finalizeResources simCluster cr w =
     (case sim_finalizeError w of None \<Rightarrow> (None, w\<lparr>sim_stored := None\<rparr>) | Some err \<Rightarrow> (Some err, w))"
  by (simp only: simCluster_def Collaborators.select_convs)

lemma notFound_IsNotFound: "IsNotFound (Some notFound)"
  by (simp add: notFound_def)

lemma sim_Update: "ImageRegistries_Update simCluster cr w = (None, w\<lparr>sim_stored := Some cr\<rparr>)"
  by (simp only: simCluster_def Collaborators.select_convs)

lemma sim_RemoveResources: "RemoveResources simCluster cr w = ((cr, sim_removeError w), w)"
  by (simp only: simCluster_def Collaborators.select_convs)

lemma sim_clusterStatus_Update: "clusterStatus_Update simCluster t st msg w = (None, w)"
  by (simp only: simCluster_def Collaborators.select_convs)

lemma sim_conditions:
  "conditionRemoved simCluster = simCondition ''Removed''"
  "conditionAvailable simCluster = simCondition ''Available''"
  "conditionProgressing simCluster = simCondition ''Progressing''"
  "conditionFailing simCluster = simCondition ''Failing''"
  by (simp_all only: simCluster_def Collaborators.select_convs)

lemma sim_appendFinalizer: "appendFinalizer simCluster cr modified w = ((cr, modified), w)"
  by (simp only: simCluster_def Collaborators.select_convs)

lemma sim_verifyResource: "verifyResource simCluster cr params w = ((cr, None), w)"
  by (simp only: simCluster_def Collaborators.select_convs)

lemma sim_storage_NewDriver:
  "storage_NewDriver simCluster name ns cfg w =
     (NewDriver simPVC (installOn (sim_platform w)) simZeros cfg 0 0, w)"
  by (simp only: simCluster_def Collaborators.select_convs)

lemma sim_ValidateConfiguration:
  "ValidateConfiguration simCluster driver cr modified w = ((cr, modified, sim_validateError w), w)"
  by (simp only: simCluster_def Collaborators.select_convs)

lemma sim_Apply:
  "generator_Apply simCluster cr modified w = ((cr, modified \<or> sim_applyChanges w, sim_applyError w), w)"
  by (simp only: simCluster_def Collaborators.select_convs)

lemma sim_deployments_Get:
  "deployments_Get simCluster name ns w =
     (if sim_deployment w then ((Some (OtherRuntimeObject ()), None), w) else ((None, Some notFound), w))"
  by (simp only: simCluster_def Collaborators.select_convs)

lemma sim_services_Get:
  "services_Get simCluster name ns w =
     (case sim_service w of None \<Rightarrow> ((None, Some notFound), w)
      | Some svc \<Rightarrow> ((Some (ServiceObject svc), None), w))"
  by (simp only: simCluster_def Collaborators.select_convs)

lemma sim_syncStatus: "syncStatus simCluster cr deploy applyError statusChanged w = ((cr, statusChanged), w)"
  by (simp only: simCluster_def Collaborators.select_convs)

lemma sim_addImageRegistryChecksum: "addImageRegistryChecksum simCluster cr w = (simAddChecksum cr, w)"
  by (simp only: simCluster_def Collaborators.select_convs)

lemma sim_constants:
  "Checksum simCluster = simChecksum"
  "ChecksumOperatorAnnotation simCluster = simAnnotation"
  by (simp_all only: simCluster_def Collaborators.select_convs)

lemmas sim = sim_NewForConfig sim_Get sim_resourceName sim_finalizeResources sim_Update
  sim_RemoveResources sim_clusterStatus_Update sim_conditions sim_appendFinalizer
  sim_verifyResource sim_storage_NewDriver sim_ValidateConfiguration sim_Apply
  sim_deployments_Get sim_services_Get sim_syncStatus sim_addImageRegistryChecksum sim_constants

lemma fmt_int_1: "fmt_int 1 = ''1''"
  by (simp add: fmt_int_def fmt_d.simps digit_def)

lemma fmt_int_5000: "fmt_int 5000 = ''5000''"
  by (simp add: fmt_int_def fmt_d.simps digit_def)

lemma simAddChecksum_idem: "simAddChecksum (simAddChecksum cr) = simAddChecksum cr"
proof -
  obtain d where d: "simChecksum (Spec cr, Status cr) = Inr d"
    using simChecksum_total by blast
  then show ?thesis by (simp add: simAddChecksum_def)
qed

text \<open>The stored object of the simulated cluster, written out.\<close>

lemma simObject_explicit:
  "simObject =
     \<lparr>ObjectMeta = \<lparr>Name = ''image-registry'', Namespace = [], Generation = 1,
                     DeletionTimestamp = None,
                     Annotations = [simAnnotation \<mapsto>
                       ''Managed[S3]1/image-registry.openshift-image-registry.svc.cluster.local:5000[Removed=False() Failing=False()]''],
                     OwnerReferences = []\<rparr>,
      Spec = \<lparr>ManagementState = Managed, Storage = onlyS3\<rparr>,
      Status = \<lparr>ObservedGeneration = 1,
                 InternalRegistryHostname = ''image-registry.openshift-image-registry.svc.cluster.local:5000'',
                 Conditions = [\<lparr>Type = ''Removed'', CondStatus = ConditionFalse, Message = []\<rparr>,
                               \<lparr>Type = ''Failing'', CondStatus = ConditionFalse, Message = []\<rparr>]\<rparr>\<rparr>"
  by (simp add: simObject_def simAddChecksum_def simChecksum_def populated_def zeroStorage_def
        onlyS3_def fmt_v_def fmt_int_1 stateName_def conditionText_def)

lemma simObject_fields:
  "ManagementState (Spec simObject) = Managed"
  "Storage (Spec simObject) = onlyS3"
  "Name (ObjectMeta simObject) = ''image-registry''"
  "Generation (ObjectMeta simObject) = 1"
  "DeletionTimestamp (ObjectMeta simObject) = None"
  "ObservedGeneration (Status simObject) = 1"
  "InternalRegistryHostname (Status simObject)
     = ''image-registry.openshift-image-registry.svc.cluster.local:5000''"
  "Conditions (Status simObject)
     = [\<lparr>Type = ''Removed'', CondStatus = ConditionFalse, Message = []\<rparr>,
        \<lparr>Type = ''Failing'', CondStatus = ConditionFalse, Message = []\<rparr>]"
  by (simp_all add: simObject_explicit)

lemma simObject_unchanged:
  "simObject\<lparr>Spec := (Spec simObject)\<lparr>Storage := onlyS3\<rparr>\<rparr> = simObject"
  "simObject\<lparr>Status := (Status simObject)\<lparr>ObservedGeneration := 1\<rparr>\<rparr> = simObject"
  "simObject\<lparr>Status := (Status simObject)\<lparr>Conditions :=
       [\<lparr>Type = ''Removed'', CondStatus = ConditionFalse, Message = []\<rparr>,
        \<lparr>Type = ''Failing'', CondStatus = ConditionFalse, Message = []\<rparr>]\<rparr>\<rparr> = simObject"
  by (simp_all add: simObject_explicit)

lemma simAddChecksum_simObject: "simAddChecksum simObject = simObject"
  by (simp add: simObject_def simAddChecksum_idem)

lemma simWorld_fields:
  "sim_stored simWorld = Some simObject"
  "sim_platform simWorld = noPlatform\<lparr>Platform_AWS := Some 0\<rparr>"
  "sim_removeError simWorld = None"
  "sim_finalizeError simWorld = None"
  "sim_validateError simWorld = None"
  "sim_applyChanges simWorld = False"
  "sim_applyError simWorld = None"
  "sim_deployment simWorld = True"
  "sim_service simWorld = Some simService"
  by (simp_all add: simWorld_def)

lemma simService_fields:
  "Service_Ports simService = [5000]"
  "Name (Service_ObjectMeta simService) = ''image-registry''"
  "Namespace (Service_ObjectMeta simService) = ''openshift-image-registry''"
  by (simp_all add: simService_def)

lemma simParams_fields:
  "Deployment_Namespace simParams = ''openshift-image-registry''"
  "Service_Name simParams = ''image-registry''"
  by (simp_all add: simParams_def)

lemma sim_resolve_S3:
  "NewDriver simPVC gic simZeros onlyS3 0 0 = (onlyS3, Inr (S3Driver 7 0 0))"
  by (simp add: NewDriver_def newDriver_def selectDriver_def onlyS3_def zeroStorage_def)

section \<open>Properties of the driver resolver\<close>

text \<open>
  Claim C1, as amended. When exactly one backend variant is populated and, if that variant
  is PVC, \<open>pvc.NewDriver\<close> succeeds, both \<open>newDriver\<close> and \<open>NewDriver\<close> return the driver
  of that variant and no error, and \<open>NewDriver\<close> leaves the configuration as it was.
\<close>

theorem resolve_single_variant:
  assumes "length (populated cfg) = 1"
      and "\<forall>c. PVC cfg = Some c \<longrightarrow> (\<exists>d. pvc c k = Inr d)"
  shows "\<exists>drv. newDriver pvc cfg k l = Inr drv
          \<and> NewDriver pvc gic z cfg k l = (cfg, Inr drv)
          \<and> (\<forall>c. EmptyDir cfg = Some c \<longrightarrow> drv = EmptyDirDriver c l)
          \<and> (\<forall>c. S3 cfg = Some c \<longrightarrow> drv = S3Driver c k l)
          \<and> (\<forall>c. Swift cfg = Some c \<longrightarrow> drv = SwiftDriver c l)
          \<and> (\<forall>c. GCS cfg = Some c \<longrightarrow> drv = GCSDriver c l)
          \<and> (\<forall>c d. PVC cfg = Some c \<longrightarrow> pvc c k = Inr d \<longrightarrow> drv = PVCDriver d)
          \<and> (\<forall>c. Azure cfg = Some c \<longrightarrow> drv = AzureDriver c k l)"
proof -
  note one = newDriver_one [OF assms(1), of pvc k l]
  have "\<exists>drv. newDriver pvc cfg k l = Inr drv"
    using assms
    by (cases "EmptyDir cfg"; cases "S3 cfg"; cases "Swift cfg"; cases "GCS cfg"; cases "PVC cfg";
        cases "Azure cfg")
       (auto simp add: populated_def newDriver_def selectDriver_def)
  then obtain drv where drv: "newDriver pvc cfg k l = Inr drv" ..
  have nd: "NewDriver pvc gic z cfg k l = (cfg, Inr drv)"
    using drv by (rule NewDriver_ok)
  have p: "\<forall>c d. PVC cfg = Some c \<longrightarrow> pvc c k = Inr d \<longrightarrow> drv = PVCDriver d"
    using one drv by (auto split: sum.splits)
  have e: "\<forall>c. EmptyDir cfg = Some c \<longrightarrow> drv = EmptyDirDriver c l"
    using one drv by simp
  have s: "\<forall>c. S3 cfg = Some c \<longrightarrow> drv = S3Driver c k l"
    using one drv by simp
  have w: "\<forall>c. Swift cfg = Some c \<longrightarrow> drv = SwiftDriver c l"
    using one drv by simp
  have g: "\<forall>c. GCS cfg = Some c \<longrightarrow> drv = GCSDriver c l"
    using one drv by simp
  have a: "\<forall>c. Azure cfg = Some c \<longrightarrow> drv = AzureDriver c k l"
    using one drv by simp
  from drv nd e s w g p a show ?thesis by blast
qed

text \<open>
  The theorem at a configuration with only S3 and at one with only PVC, with a PVC
  constructor that succeeds.
\<close>

theorem resolve_single_variant_witness:
  "newDriver simPVC onlyS3 (1::nat) (2::nat) = Inr (S3Driver 7 1 2)
   \<and> NewDriver simPVC (installOn noPlatform) simZeros onlyS3 (1::nat) (2::nat) = (onlyS3, Inr (S3Driver 7 1 2))
   \<and> newDriver simPVC onlyPVC (1::nat) (2::nat) = Inr (PVCDriver 3)
   \<and> NewDriver simPVC (installOn noPlatform) simZeros onlyPVC (1::nat) (2::nat) = (onlyPVC, Inr (PVCDriver 3))"
proof -
  have a1: "length (populated onlyS3) = 1"
    by (simp add: onlyS3_def populated_def zeroStorage_def)
  have a2: "\<forall>c. PVC onlyS3 = Some c \<longrightarrow> (\<exists>d. simPVC c 1 = Inr d)"
    by (simp add: onlyS3_def zeroStorage_def)
  have b1: "length (populated onlyPVC) = 1"
    by (simp add: onlyPVC_def populated_def zeroStorage_def)
  have b2: "\<forall>c. PVC onlyPVC = Some c \<longrightarrow> (\<exists>d. simPVC c 1 = Inr d)"
    by (simp add: simPVC_def)
  have s3: "S3 onlyS3 = Some 7" and pvc: "PVC onlyPVC = Some 3" "simPVC 3 1 = Inr 3"
    by (simp_all add: onlyS3_def onlyPVC_def zeroStorage_def simPVC_def)
  from resolve_single_variant [where cfg = onlyS3 and pvc = simPVC and k = 1 and l = "2::nat"
      and gic = "installOn noPlatform" and z = simZeros, OF a1 a2] s3
  have x: "newDriver simPVC onlyS3 (1::nat) (2::nat) = Inr (S3Driver 7 1 2)
   \<and> NewDriver simPVC (installOn noPlatform) simZeros onlyS3 (1::nat) (2::nat) = (onlyS3, Inr (S3Driver 7 1 2))"
    by auto
  from resolve_single_variant [where cfg = onlyPVC and pvc = simPVC and k = 1 and l = "2::nat"
      and gic = "installOn noPlatform" and z = simZeros, OF b1 b2] pvc
  have y: "newDriver simPVC onlyPVC (1::nat) (2::nat) = Inr (PVCDriver 3)
   \<and> NewDriver simPVC (installOn noPlatform) simZeros onlyPVC (1::nat) (2::nat) = (onlyPVC, Inr (PVCDriver 3))"
    by auto
  from x y show ?thesis by simp
qed

text \<open>
  Claim C1 as stated fails: with only PVC populated and a \<open>pvc.NewDriver\<close> that returns an
  error, resolution returns that error and no driver (lines 59-62).
\<close>

theorem resolve_single_variant_counterexample:
  "length (populated onlyPVC) = 1
   \<and> newDriver brokenPVC onlyPVC (1::nat) (2::nat) = Inl (Errorf ''unable to build kubernetes client'')
   \<and> NewDriver brokenPVC (installOn noPlatform) simZeros onlyPVC (1::nat) (2::nat)
       = (onlyPVC, Inl (Errorf ''unable to build kubernetes client''))"
  by (simp add: onlyPVC_def populated_def zeroStorage_def newDriver_def NewDriver_def brokenPVC_def)

text \<open>
  Claim C2, as amended. When two or more variants are populated and, if PVC is among them,
  \<open>pvc.NewDriver\<close> succeeds, both \<open>newDriver\<close> and \<open>NewDriver\<close> fail with the error of
  line 79, whose message contains the name of every populated variant; \<open>NewDriver\<close> does
  not consult the platform and leaves the configuration as it was.
\<close>

theorem resolve_ambiguous:
  assumes "2 \<le> length (populated cfg)"
      and "\<forall>c. PVC cfg = Some c \<longrightarrow> (\<exists>d. pvc c k = Inr d)"
  shows "newDriver pvc cfg k l = Inl (Errorf (ambiguousMessage (length (populated cfg)) (populated cfg)))
       \<and> NewDriver pvc gic z cfg k l
           = (cfg, Inl (Errorf (ambiguousMessage (length (populated cfg)) (populated cfg))))
       \<and> (\<forall>n \<in> set (populated cfg).
             sublist n (Error (Errorf (ambiguousMessage (length (populated cfg)) (populated cfg)))))"
proof -
  let ?e = "Errorf (ambiguousMessage (length (populated cfg)) (populated cfg))"
  have n: "newDriver pvc cfg k l = Inl ?e"
    using assms by (rule newDriver_many)
  then have nd: "NewDriver pvc gic z cfg k l = (cfg, Inl ?e)"
    by (rule NewDriver_other_error) simp
  have s: "\<forall>n \<in> set (populated cfg). sublist n (Error ?e)"
    by (simp add: sublist_ambiguousMessage)
  from n nd s show ?thesis by (intro conjI)
qed

text \<open>
  The theorem at a configuration with S3 and GCS.
\<close>

theorem resolve_ambiguous_witness:
  "newDriver simPVC s3AndGCS (1::nat) (2::nat)
     = Inl (Errorf ''exactly one storage type should be configured at the same time, got 2: [S3 GCS]'')
   \<and> NewDriver simPVC (installOn noPlatform) simZeros s3AndGCS (1::nat) (2::nat)
     = (s3AndGCS, Inl (Errorf ''exactly one storage type should be configured at the same time, got 2: [S3 GCS]''))
   \<and> sublist ''S3'' ''exactly one storage type should be configured at the same time, got 2: [S3 GCS]''
   \<and> sublist ''GCS'' ''exactly one storage type should be configured at the same time, got 2: [S3 GCS]''"
proof -
  have p: "populated s3AndGCS = [''S3'', ''GCS'']"
    by (simp add: s3AndGCS_def populated_def zeroStorage_def)
  have len: "length (populated s3AndGCS) = 2"
    by (simp add: p)
  have a1: "2 \<le> length (populated s3AndGCS)"
    by (simp add: p)
  have a2: "\<forall>c. PVC s3AndGCS = Some c \<longrightarrow> (\<exists>d. simPVC c 1 = Inr d)"
    by (simp add: s3AndGCS_def zeroStorage_def)
  have m: "ambiguousMessage (length (populated s3AndGCS)) (populated s3AndGCS)
         = ''exactly one storage type should be configured at the same time, got 2: [S3 GCS]''"
    unfolding len by (simp add: p ambiguousMessage_def fmt_v_def fmt_d_2)
  from resolve_ambiguous [where cfg = s3AndGCS and pvc = simPVC and k = 1 and l = "2::nat"
      and gic = "installOn noPlatform" and z = simZeros, OF a1 a2]
  show ?thesis unfolding m by (simp add: p)
qed

text \<open>
  Claim C2 as stated fails: with S3 and PVC populated and a \<open>pvc.NewDriver\<close> that returns
  an error, \<open>newDriver\<close> returns that error, which names neither variant.
\<close>

theorem resolve_ambiguous_counterexample:
  "2 \<le> length (populated s3AndPVC)
   \<and> newDriver brokenPVC s3AndPVC (1::nat) (2::nat) = Inl (Errorf ''unable to build kubernetes client'')
   \<and> \<not> sublist ''S3'' (Error (Errorf ''unable to build kubernetes client''))
   \<and> \<not> sublist ''PVC'' (Error (Errorf ''unable to build kubernetes client''))"
proof -
  have a: "2 \<le> length (populated s3AndPVC)"
    by (simp add: s3AndPVC_def populated_def zeroStorage_def)
  have b: "newDriver brokenPVC s3AndPVC (1::nat) (2::nat) = Inl (Errorf ''unable to build kubernetes client'')"
    by (simp add: s3AndPVC_def zeroStorage_def newDriver_def brokenPVC_def)
  have c: "\<not> sublist ''S3'' ''unable to build kubernetes client''"
    by code_simp
  have d: "\<not> sublist ''PVC'' ''unable to build kubernetes client''"
    by code_simp
  from a b c d show ?thesis by simp
qed

lemma getPlatformStorage_known:
  assumes "gic k = Inr ic"
  shows "getPlatformStorage gic z k =
     (if Platform_Libvirt (Platform ic) \<noteq> None then (zeroStorage\<lparr>EmptyDir := Some (zeroEmptyDir z)\<rparr>, None)
      else if Platform_AWS (Platform ic) \<noteq> None then (zeroStorage\<lparr>S3 := Some (zeroS3 z)\<rparr>, None)
      else if Platform_Azure (Platform ic) \<noteq> None then (zeroStorage\<lparr>Azure := Some (zeroAzure z)\<rparr>, None)
      else if Platform_OpenStack (Platform ic) \<noteq> None then (zeroStorage\<lparr>Swift := Some (zeroSwift z)\<rparr>, None)
      else (zeroStorage, None))"
  using assms by (simp add: getPlatformStorage_def)

text \<open>
  Claim C3. With no variant populated \<open>newDriver\<close> fails with
  \<open>ErrStorageNotConfigured\<close>. When the install configuration is available and its platform
  is one of the four that \<open>getPlatformStorage\<close> knows, \<open>NewDriver\<close> replaces the
  configuration by one with exactly one variant (Libvirt: EmptyDir, AWS: S3, Azure: Azure,
  OpenStack: Swift, the first that applies), and its result is the result of
  \<open>newDriver\<close> on that configuration: the driver of the inferred variant.
\<close>

theorem resolve_platform_fallback:
  assumes "populated cfg = []"
      and "gic k = Inr ic"
      and "Platform_Libvirt (Platform ic) \<noteq> None \<or> Platform_AWS (Platform ic) \<noteq> None
           \<or> Platform_Azure (Platform ic) \<noteq> None \<or> Platform_OpenStack (Platform ic) \<noteq> None"
  shows "newDriver pvc cfg k l = Inl ErrStorageNotConfigured
       \<and> (\<exists>cfg' drv.
             getPlatformStorage gic z k = (cfg', None)
           \<and> length (populated cfg') = 1
           \<and> newDriver pvc cfg' k l = Inr drv
           \<and> NewDriver pvc gic z cfg k l = (cfg', Inr drv)
           \<and> (cfg', drv) =
               (if Platform_Libvirt (Platform ic) \<noteq> None
                  then (zeroStorage\<lparr>EmptyDir := Some (zeroEmptyDir z)\<rparr>, EmptyDirDriver (zeroEmptyDir z) l)
                else if Platform_AWS (Platform ic) \<noteq> None
                  then (zeroStorage\<lparr>S3 := Some (zeroS3 z)\<rparr>, S3Driver (zeroS3 z) k l)
                else if Platform_Azure (Platform ic) \<noteq> None
                  then (zeroStorage\<lparr>Azure := Some (zeroAzure z)\<rparr>, AzureDriver (zeroAzure z) k l)
                else (zeroStorage\<lparr>Swift := Some (zeroSwift z)\<rparr>, SwiftDriver (zeroSwift z) l)))"
proof -
  have first: "newDriver pvc cfg k l = Inl ErrStorageNotConfigured"
    using assms(1) by (rule newDriver_none)
  note g = getPlatformStorage_known [where gic = gic and k = k and ic = ic and z = z, OF assms(2)]
  consider (lv) "Platform_Libvirt (Platform ic) \<noteq> None"
    | (aws) "Platform_Libvirt (Platform ic) = None" "Platform_AWS (Platform ic) \<noteq> None"
    | (az) "Platform_Libvirt (Platform ic) = None" "Platform_AWS (Platform ic) = None"
           "Platform_Azure (Platform ic) \<noteq> None"
    | (os) "Platform_Libvirt (Platform ic) = None" "Platform_AWS (Platform ic) = None"
           "Platform_Azure (Platform ic) = None" "Platform_OpenStack (Platform ic) \<noteq> None"
    using assms(3) by blast
  then have "\<exists>cfg' drv.
             getPlatformStorage gic z k = (cfg', None)
           \<and> length (populated cfg') = 1
           \<and> newDriver pvc cfg' k l = Inr drv
           \<and> NewDriver pvc gic z cfg k l = (cfg', Inr drv)
           \<and> (cfg', drv) =
               (if Platform_Libvirt (Platform ic) \<noteq> None
                  then (zeroStorage\<lparr>EmptyDir := Some (zeroEmptyDir z)\<rparr>, EmptyDirDriver (zeroEmptyDir z) l)
                else if Platform_AWS (Platform ic) \<noteq> None
                  then (zeroStorage\<lparr>S3 := Some (zeroS3 z)\<rparr>, S3Driver (zeroS3 z) k l)
                else if Platform_Azure (Platform ic) \<noteq> None
                  then (zeroStorage\<lparr>Azure := Some (zeroAzure z)\<rparr>, AzureDriver (zeroAzure z) k l)
                else (zeroStorage\<lparr>Swift := Some (zeroSwift z)\<rparr>, SwiftDriver (zeroSwift z) l))"
  proof cases
    case lv
    then show ?thesis
      by (simp add: NewDriver_def first g) (simp add: populated_def newDriver_def selectDriver_def zeroStorage_def)
  next
    case aws
    then show ?thesis
      by (simp add: NewDriver_def first g) (simp add: populated_def newDriver_def selectDriver_def zeroStorage_def)
  next
    case az
    then show ?thesis
      by (simp add: NewDriver_def first g) (simp add: populated_def newDriver_def selectDriver_def zeroStorage_def)
  next
    case os
    then show ?thesis
      by (simp add: NewDriver_def first g) (simp add: populated_def newDriver_def selectDriver_def zeroStorage_def)
  qed
  with first show ?thesis by (rule conjI)
qed

text \<open>
  The theorem on each of the four platforms.
\<close>

theorem resolve_platform_fallback_witness:
  "newDriver simPVC unconfigured (1::nat) (2::nat) = Inl ErrStorageNotConfigured
   \<and> getPlatformStorage (installOn (noPlatform\<lparr>Platform_AWS := Some 4\<rparr>)) simZeros (1::nat)
       = (zeroStorage\<lparr>S3 := Some 0\<rparr> :: SimStorage, None)
   \<and> NewDriver simPVC (installOn (noPlatform\<lparr>Platform_AWS := Some 4\<rparr>)) simZeros unconfigured (1::nat) (2::nat)
       = (zeroStorage\<lparr>S3 := Some 0\<rparr>, Inr (S3Driver 0 1 2))
   \<and> NewDriver simPVC (installOn (noPlatform\<lparr>Platform_Libvirt := Some 4\<rparr>)) simZeros unconfigured (1::nat) (2::nat)
       = (zeroStorage\<lparr>EmptyDir := Some 0\<rparr>, Inr (EmptyDirDriver 0 2))
   \<and> NewDriver simPVC (installOn (noPlatform\<lparr>Platform_Azure := Some 4\<rparr>)) simZeros unconfigured (1::nat) (2::nat)
       = (zeroStorage\<lparr>Azure := Some 0\<rparr>, Inr (AzureDriver 0 1 2))
   \<and> NewDriver simPVC (installOn (noPlatform\<lparr>Platform_OpenStack := Some 4\<rparr>)) simZeros unconfigured (1::nat) (2::nat)
       = (zeroStorage\<lparr>Swift := Some 0\<rparr>, Inr (SwiftDriver 0 2))"
proof -
  have p: "populated unconfigured = []"
    by (simp add: unconfigured_def populated_def zeroStorage_def)
  have g: "\<And>pl. installOn pl (1::nat) = Inr \<lparr>Platform = pl\<rparr>"
    by (simp add: installOn_def)
  have aws: "Platform_Libvirt (Platform \<lparr>Platform = noPlatform\<lparr>Platform_AWS := Some 4\<rparr>\<rparr>) \<noteq> None
      \<or> Platform_AWS (Platform \<lparr>Platform = noPlatform\<lparr>Platform_AWS := Some 4\<rparr>\<rparr>) \<noteq> None
      \<or> Platform_Azure (Platform \<lparr>Platform = noPlatform\<lparr>Platform_AWS := Some 4\<rparr>\<rparr>) \<noteq> None
      \<or> Platform_OpenStack (Platform \<lparr>Platform = noPlatform\<lparr>Platform_AWS := Some 4\<rparr>\<rparr>) \<noteq> None"
    by (simp add: noPlatform_def)
  have lv: "Platform_Libvirt (Platform \<lparr>Platform = noPlatform\<lparr>Platform_Libvirt := Some 4\<rparr>\<rparr>) \<noteq> None
      \<or> Platform_AWS (Platform \<lparr>Platform = noPlatform\<lparr>Platform_Libvirt := Some 4\<rparr>\<rparr>) \<noteq> None
      \<or> Platform_Azure (Platform \<lparr>Platform = noPlatform\<lparr>Platform_Libvirt := Some 4\<rparr>\<rparr>) \<noteq> None
      \<or> Platform_OpenStack (Platform \<lparr>Platform = noPlatform\<lparr>Platform_Libvirt := Some 4\<rparr>\<rparr>) \<noteq> None"
    by (simp add: noPlatform_def)
  have az: "Platform_Libvirt (Platform \<lparr>Platform = noPlatform\<lparr>Platform_Azure := Some 4\<rparr>\<rparr>) \<noteq> None
      \<or> Platform_AWS (Platform \<lparr>Platform = noPlatform\<lparr>Platform_Azure := Some 4\<rparr>\<rparr>) \<noteq> None
      \<or> Platform_Azure (Platform \<lparr>Platform = noPlatform\<lparr>Platform_Azure := Some 4\<rparr>\<rparr>) \<noteq> None
      \<or> Platform_OpenStack (Platform \<lparr>Platform = noPlatform\<lparr>Platform_Azure := Some 4\<rparr>\<rparr>) \<noteq> None"
    by (simp add: noPlatform_def)
  have os: "Platform_Libvirt (Platform \<lparr>Platform = noPlatform\<lparr>Platform_OpenStack := Some 4\<rparr>\<rparr>) \<noteq> None
      \<or> Platform_AWS (Platform \<lparr>Platform = noPlatform\<lparr>Platform_OpenStack := Some 4\<rparr>\<rparr>) \<noteq> None
      \<or> Platform_Azure (Platform \<lparr>Platform = noPlatform\<lparr>Platform_OpenStack := Some 4\<rparr>\<rparr>) \<noteq> None
      \<or> Platform_OpenStack (Platform \<lparr>Platform = noPlatform\<lparr>Platform_OpenStack := Some 4\<rparr>\<rparr>) \<noteq> None"
    by (simp add: noPlatform_def)
  from resolve_platform_fallback [where pvc = simPVC and l = "2::nat" and z = simZeros and cfg = unconfigured
         and k = "1::nat" and gic = "installOn (noPlatform\<lparr>Platform_AWS := Some 4\<rparr>)"
         and ic = "\<lparr>Platform = noPlatform\<lparr>Platform_AWS := Some 4\<rparr>\<rparr>", OF p g aws]
       resolve_platform_fallback [where pvc = simPVC and l = "2::nat" and z = simZeros and cfg = unconfigured
         and k = "1::nat" and gic = "installOn (noPlatform\<lparr>Platform_Libvirt := Some 4\<rparr>)"
         and ic = "\<lparr>Platform = noPlatform\<lparr>Platform_Libvirt := Some 4\<rparr>\<rparr>", OF p g lv]
       resolve_platform_fallback [where pvc = simPVC and l = "2::nat" and z = simZeros and cfg = unconfigured
         and k = "1::nat" and gic = "installOn (noPlatform\<lparr>Platform_Azure := Some 4\<rparr>)"
         and ic = "\<lparr>Platform = noPlatform\<lparr>Platform_Azure := Some 4\<rparr>\<rparr>", OF p g az]
       resolve_platform_fallback [where pvc = simPVC and l = "2::nat" and z = simZeros and cfg = unconfigured
         and k = "1::nat" and gic = "installOn (noPlatform\<lparr>Platform_OpenStack := Some 4\<rparr>)"
         and ic = "\<lparr>Platform = noPlatform\<lparr>Platform_OpenStack := Some 4\<rparr>\<rparr>", OF p g os]
  show ?thesis
    by (simp add: noPlatform_def simZeros_def)
qed

section \<open>Properties of the controller\<close>

text \<open>
  Claim C4, as amended. In \<open>createOrUpdateResources\<close>: a failure of \<open>verifyResource\<close> is
  returned as an ordinary error; the resolver's \<open>ErrStorageNotConfigured\<close> is returned as a
  permanent error; every other error of the resolver (the ambiguous-configuration error,
  a failed platform query, a failed driver constructor) is returned as an ordinary error;
  a failure of \<open>ValidateConfiguration\<close> is returned as a permanent error; and the result of
  \<open>Apply\<close> is returned as it is.
\<close>

theorem apply_path_classification:
  assumes "appendFinalizer E cr modified (world s) = ((cr1, m1), w1)"
      and "verifyResource E cr1 params w1 = ((cr2, verr), w2)"
      and "storage_NewDriver E (Name (ObjectMeta cr2)) (Deployment_Namespace params)
             (Storage (Spec cr2)) w2 = ((st, res), w3)"
  shows "(\<forall>e. verr = Some e \<longrightarrow>
            snd (snd (fst (createOrUpdateResources E params cr modified s)))
              = Some (Errorf (''unable to complete resource: '' @ Error e))
          \<and> \<not> isPermanent (Errorf (''unable to complete resource: '' @ Error e)))
       \<and> (verr = None \<longrightarrow> res = Inl ErrStorageNotConfigured \<longrightarrow>
            snd (snd (fst (createOrUpdateResources E params cr modified s)))
              = Some (permanentError ErrStorageNotConfigured)
          \<and> isPermanent (permanentError ErrStorageNotConfigured))
       \<and> (\<forall>e. verr = None \<longrightarrow> res = Inl e \<longrightarrow> e \<noteq> ErrStorageNotConfigured \<longrightarrow>
            snd (snd (fst (createOrUpdateResources E params cr modified s)))
              = Some (Errorf (''unable to create storage driver: '' @ Error e))
          \<and> \<not> isPermanent (Errorf (''unable to create storage driver: '' @ Error e)))
       \<and> (\<forall>drv cr4 m4 e w4. verr = None \<longrightarrow> res = Inr drv \<longrightarrow>
            ValidateConfiguration E drv (cr2\<lparr>Spec := (Spec cr2)\<lparr>Storage := st\<rparr>\<rparr>) m1 w3
              = ((cr4, m4, Some e), w4) \<longrightarrow>
            snd (snd (fst (createOrUpdateResources E params cr modified s)))
              = Some (permanentError (Errorf (''invalid configuration: '' @ Error e)))
          \<and> isPermanent (permanentError (Errorf (''invalid configuration: '' @ Error e))))
       \<and> (\<forall>drv cr4 m4 w4. verr = None \<longrightarrow> res = Inr drv \<longrightarrow>
            ValidateConfiguration E drv (cr2\<lparr>Spec := (Spec cr2)\<lparr>Storage := st\<rparr>\<rparr>) m1 w3
              = ((cr4, m4, None), w4) \<longrightarrow>
            snd (snd (fst (createOrUpdateResources E params cr modified s)))
              = snd (snd (fst (generator_Apply E cr4 m4 w4))))"
  using assms
  by (simp add: createOrUpdateResources_def invoke_def split: prod.splits)

lemma sim_resolve_unconfigured:
  "NewDriver simPVC (installOn noPlatform) simZeros unconfigured (0::nat) (0::nat)
     = (zeroStorage, Inl ErrStorageNotConfigured)"
  by (simp add: NewDriver_def newDriver_def selectDriver_def unconfigured_def zeroStorage_def
        getPlatformStorage_def installOn_def noPlatform_def)

lemma sim_resolve_ambiguous:
  "NewDriver simPVC gic simZeros s3AndGCS (0::nat) (0::nat)
     = (s3AndGCS,
        Inl (Errorf ''exactly one storage type should be configured at the same time, got 2: [S3 GCS]''))"
  by (simp add: NewDriver_def newDriver_def selectDriver_def s3AndGCS_def zeroStorage_def
        ambiguousMessage_def fmt_v_def)
     (simp add: fmt_d.simps digit_def)

text \<open>
  The theorem on the simulated cluster: no backend and an unknown platform (permanent), a
  configuration that fails validation (permanent), and two backends (not permanent).
\<close>

theorem apply_path_classification_witness:
  "snd (snd (fst (createOrUpdateResources simCluster simParams (withStorage unconfigured simObject) False
         (start (simWorld\<lparr>sim_platform := noPlatform\<rparr>)))))
     = Some (permanentError ErrStorageNotConfigured)
   \<and> snd (snd (fst (createOrUpdateResources simCluster simParams simObject False
         (start (simWorld\<lparr>sim_validateError := Some (Errorf ''bucket and region do not match'')\<rparr>)))))
     = Some (permanentError (Errorf ''invalid configuration: bucket and region do not match''))
   \<and> snd (snd (fst (createOrUpdateResources simCluster simParams (withStorage s3AndGCS simObject) False
         (start simWorld))))
     = Some (Errorf ''unable to create storage driver: exactly one storage type should be configured at the same time, got 2: [S3 GCS]'')"
proof -
  let ?w1 = "simWorld\<lparr>sim_platform := noPlatform\<rparr>"
  let ?c1 = "withStorage unconfigured simObject"
  have a1: "appendFinalizer simCluster ?c1 False (world (start ?w1)) = ((?c1, False), ?w1)"
    by (simp add: sim start_def)
  have b1: "verifyResource simCluster ?c1 simParams ?w1 = ((?c1, None), ?w1)"
    by (simp add: sim)
  have c1: "storage_NewDriver simCluster (Name (ObjectMeta ?c1)) (Deployment_Namespace simParams)
              (Storage (Spec ?c1)) ?w1 = ((zeroStorage, Inl ErrStorageNotConfigured), ?w1)"
    by (simp add: sim withStorage_def sim_resolve_unconfigured)
  note t1 = apply_path_classification [where E = simCluster and params = simParams, OF a1 b1 c1,
      THEN conjunct2, THEN conjunct1, rule_format, THEN conjunct1]
  let ?w2 = "simWorld\<lparr>sim_validateError := Some (Errorf ''bucket and region do not match'')\<rparr>"
  have a2: "appendFinalizer simCluster simObject False (world (start ?w2)) = ((simObject, False), ?w2)"
    by (simp add: sim start_def)
  have b2: "verifyResource simCluster simObject simParams ?w2 = ((simObject, None), ?w2)"
    by (simp add: sim)
  have c2: "storage_NewDriver simCluster (Name (ObjectMeta simObject)) (Deployment_Namespace simParams)
              (Storage (Spec simObject)) ?w2 = ((onlyS3, Inr (S3Driver 7 0 0)), ?w2)"
    by (simp add: sim simObject_fields sim_resolve_S3)
  have d2: "ValidateConfiguration simCluster (S3Driver 7 0 0)
              (simObject\<lparr>Spec := (Spec simObject)\<lparr>Storage := onlyS3\<rparr>\<rparr>) False ?w2
            = ((simObject, False, Some (Errorf ''bucket and region do not match'')), ?w2)"
    by (simp add: sim simObject_unchanged)
  note t2 = apply_path_classification [where E = simCluster and params = simParams, OF a2 b2 c2,
      THEN conjunct2, THEN conjunct2, THEN conjunct2, THEN conjunct1, rule_format,
      OF refl refl d2, THEN conjunct1]
  let ?c3 = "withStorage s3AndGCS simObject"
  have a3: "appendFinalizer simCluster ?c3 False (world (start simWorld)) = ((?c3, False), simWorld)"
    by (simp add: sim start_def)
  have b3: "verifyResource simCluster ?c3 simParams simWorld = ((?c3, None), simWorld)"
    by (simp add: sim)
  have c3: "storage_NewDriver simCluster (Name (ObjectMeta ?c3)) (Deployment_Namespace simParams)
              (Storage (Spec ?c3)) simWorld
            = ((s3AndGCS,
                Inl (Errorf ''exactly one storage type should be configured at the same time, got 2: [S3 GCS]'')),
               simWorld)"
    by (simp add: sim withStorage_def sim_resolve_ambiguous)
  note t3 = apply_path_classification [where E = simCluster and params = simParams, OF a3 b3 c3,
      THEN conjunct2, THEN conjunct2, THEN conjunct1, rule_format, THEN conjunct1]
  from t1 t2 t3 show ?thesis by simp
qed

text \<open>
  Claim C4 as stated fails for the ambiguous-configuration error. With S3 and GCS populated
  the resolver of \<open>storage.go\<close> returns the error of its line 79; this is not
  \<open>ErrStorageNotConfigured\<close>, so line 117 wraps it in an ordinary error, not a permanent one.
\<close>

theorem apply_path_classification_counterexample:
  "snd (NewDriver simPVC (installOn (sim_platform simWorld)) simZeros s3AndGCS (0::nat) (0::nat))
     = Inl (Errorf ''exactly one storage type should be configured at the same time, got 2: [S3 GCS]'')
   \<and> snd (snd (fst (createOrUpdateResources simCluster simParams (withStorage s3AndGCS simObject) False
         (start simWorld))))
     = Some (Errorf ''unable to create storage driver: exactly one storage type should be configured at the same time, got 2: [S3 GCS]'')
   \<and> \<not> isPermanent (Errorf ''unable to create storage driver: exactly one storage type should be configured at the same time, got 2: [S3 GCS]'')"
  by (simp add: createOrUpdateResources_def invoke_def sim start_def withStorage_def
        sim_resolve_ambiguous)

lemma sim_switch_managed:
  "sync_switch simCluster simParams simObject \<lparr>world = simWorld\<lparr>sim_applyChanges := ch\<rparr>, calls = cs\<rparr>
   = ((simObject, ch, None),
      \<lparr>world = simWorld\<lparr>sim_applyChanges := ch\<rparr>,
       calls = cs @ [conditionRemoved_call ConditionFalse [], appendFinalizer_call, verifyResource_call,
                     NewDriver_call, ValidateConfiguration_call, Apply_call]\<rparr>)"
  by (simp add: sync_switch_def CreateOrUpdateResources_def createOrUpdateResources_def invoke_def
        sim simCondition_def sim_resolve_S3 simObject_fields simObject_unchanged simWorld_fields)

lemma sim_observe:
  "sync_observe simCluster simParams simObject ch None \<lparr>world = simWorld\<lparr>sim_applyChanges := c\<rparr>, calls = cs\<rparr>
   = (Inr (Some (OtherRuntimeObject ()), simObject, ch),
      \<lparr>world = simWorld\<lparr>sim_applyChanges := c\<rparr>,
       calls = cs @ [deployments_Get_call ''image-registry'' ''openshift-image-registry'',
                     services_Get_call ''image-registry'' ''openshift-image-registry'']\<rparr>)"
  by (simp add: sync_observe_def invoke_def sim simObject_fields simWorld_fields simService_fields
        simParams_fields fmt_int_5000)

text \<open>
  Claim C5, as amended. In a pass that reaches the end of \<open>sync\<close> (the object was fetched,
  is not being deleted, and reading the deployment and the service did not end the pass),
  the object is written back if and only if the flag \<open>statusChanged\<close> is set when
  \<open>syncStatus\<close> returns. The object written has \<open>ObservedGeneration\<close> set to \<open>Generation\<close> and
  has been through \<open>addImageRegistryChecksum\<close>. No fingerprint is compared, and the pass
  returns nil either way.
\<close>

theorem status_write_gate:
  assumes "NewForConfig E (world s) = (None, w1)"
      and "ImageRegistries_Get E (resourceName E (Deployment_Namespace params)) w1 = ((Some cr, None), w2)"
      and "DeletionTimestamp (ObjectMeta cr) = None"
      and "sync_switch E params cr
             \<lparr>world = w2,
              calls = calls s @ [NewForConfig_call, Get_call (resourceName E (Deployment_Namespace params))]\<rparr>
           = ((cr3, sc3, applyError), s3)"
      and "sync_observe E params cr3 sc3 applyError s3 = (Inr (deploy, cr4, sc4), s4)"
      and "syncStatus E cr4 deploy applyError sc4 (world s4) = ((cr5, statusChanged), w5)"
      and "addImageRegistryChecksum E
             (cr5\<lparr>Status := (Status cr5)\<lparr>ObservedGeneration := Generation (ObjectMeta cr5)\<rparr>\<rparr>) w5
           = (cr6, w6)"
      and "ImageRegistries_Update E cr6 w6 = (uerr, w7)"
  shows "sync E params s =
           (Returns None,
            if statusChanged
              then \<lparr>world = w7,
                    calls = calls s4 @ [syncStatus_call applyError, addImageRegistryChecksum_call,
                                        Update_call cr6]\<rparr>
              else \<lparr>world = w5, calls = calls s4 @ [syncStatus_call applyError]\<rparr>)"
  using assms by (simp add: sync_def sync_write_def invoke_def)

text \<open>
  The theorem on the simulated cluster: a pass in which nothing changes writes nothing, and
  a pass in which \<open>Apply\<close> reports a change writes the object.
\<close>

theorem status_write_gate_witness:
  "sync simCluster simParams (start (simWorld\<lparr>sim_applyChanges := False\<rparr>)) =
     (Returns None,
      \<lparr>world = simWorld\<lparr>sim_applyChanges := False\<rparr>,
       calls = [NewForConfig_call, Get_call ''image-registry'',
                conditionRemoved_call ConditionFalse [], appendFinalizer_call, verifyResource_call,
                NewDriver_call, ValidateConfiguration_call, Apply_call,
                deployments_Get_call ''image-registry'' ''openshift-image-registry'',
                services_Get_call ''image-registry'' ''openshift-image-registry'',
                syncStatus_call None]\<rparr>)
   \<and> sync simCluster simParams (start (simWorld\<lparr>sim_applyChanges := True\<rparr>)) =
     (Returns None,
      \<lparr>world = simWorld\<lparr>sim_applyChanges := True, sim_stored := Some simObject\<rparr>,
       calls = [NewForConfig_call, Get_call ''image-registry'',
                conditionRemoved_call ConditionFalse [], appendFinalizer_call, verifyResource_call,
                NewDriver_call, ValidateConfiguration_call, Apply_call,
                deployments_Get_call ''image-registry'' ''openshift-image-registry'',
                services_Get_call ''image-registry'' ''openshift-image-registry'',
                syncStatus_call None, addImageRegistryChecksum_call, Update_call simObject]\<rparr>)"
proof -
  have pass: "sync simCluster simParams (start (simWorld\<lparr>sim_applyChanges := ch\<rparr>)) =
     (Returns None,
      if ch
        then \<lparr>world = simWorld\<lparr>sim_applyChanges := ch, sim_stored := Some simObject\<rparr>,
              calls = ([NewForConfig_call, Get_call ''image-registry'',
                conditionRemoved_call ConditionFalse [], appendFinalizer_call, verifyResource_call,
                NewDriver_call, ValidateConfiguration_call, Apply_call,
                deployments_Get_call ''image-registry'' ''openshift-image-registry'',
                services_Get_call ''image-registry'' ''openshift-image-registry''])
                @ [syncStatus_call None, addImageRegistryChecksum_call, Update_call simObject]\<rparr>
        else \<lparr>world = simWorld\<lparr>sim_applyChanges := ch\<rparr>,
              calls = ([NewForConfig_call, Get_call ''image-registry'',
                conditionRemoved_call ConditionFalse [], appendFinalizer_call, verifyResource_call,
                NewDriver_call, ValidateConfiguration_call, Apply_call,
                deployments_Get_call ''image-registry'' ''openshift-image-registry'',
                services_Get_call ''image-registry'' ''openshift-image-registry''])
                @ [syncStatus_call None]\<rparr>)"
    for ch
  proof -
    let ?w = "simWorld\<lparr>sim_applyChanges := ch\<rparr>"
    have a: "NewForConfig simCluster (world (start ?w)) = (None, ?w)"
      by (simp add: sim start_def)
    have b: "ImageRegistries_Get simCluster (resourceName simCluster (Deployment_Namespace simParams)) ?w
               = ((Some simObject, None), ?w)"
      by (simp add: sim simWorld_fields)
    have c: "DeletionTimestamp (ObjectMeta simObject) = None"
      by (simp add: simObject_fields)
    have d: "sync_switch simCluster simParams simObject
               \<lparr>world = ?w,
                calls = calls (start ?w) @ [NewForConfig_call,
                          Get_call (resourceName simCluster (Deployment_Namespace simParams))]\<rparr>
             = ((simObject, ch, None),
                \<lparr>world = ?w,
                 calls = [NewForConfig_call, Get_call ''image-registry'',
                          conditionRemoved_call ConditionFalse [], appendFinalizer_call,
                          verifyResource_call, NewDriver_call, ValidateConfiguration_call, Apply_call]\<rparr>)"
      by (simp add: sim_switch_managed start_def sim_resourceName)
    have e: "sync_observe simCluster simParams simObject ch None
               \<lparr>world = ?w,
                 calls = [NewForConfig_call, Get_call ''image-registry'',
                          conditionRemoved_call ConditionFalse [], appendFinalizer_call,
                          verifyResource_call, NewDriver_call, ValidateConfiguration_call, Apply_call]\<rparr>
             = (Inr (Some (OtherRuntimeObject ()), simObject, ch),
                \<lparr>world = ?w,
                 calls = [NewForConfig_call, Get_call ''image-registry'',
                          conditionRemoved_call ConditionFalse [], appendFinalizer_call,
                          verifyResource_call, NewDriver_call, ValidateConfiguration_call, Apply_call,
                          deployments_Get_call ''image-registry'' ''openshift-image-registry'',
                          services_Get_call ''image-registry'' ''openshift-image-registry'']\<rparr>)"
      by (simp add: sim_observe)
    have f: "syncStatus simCluster simObject (Some (OtherRuntimeObject ())) None ch
               (world \<lparr>world = ?w,
                 calls = [NewForConfig_call, Get_call ''image-registry'',
                          conditionRemoved_call ConditionFalse [], appendFinalizer_call,
                          verifyResource_call, NewDriver_call, ValidateConfiguration_call, Apply_call,
                          deployments_Get_call ''image-registry'' ''openshift-image-registry'',
                          services_Get_call ''image-registry'' ''openshift-image-registry'']\<rparr>)
             = ((simObject, ch), ?w)"
      by (simp add: sim)
    have g: "addImageRegistryChecksum simCluster
               (simObject\<lparr>Status := (Status simObject)\<lparr>ObservedGeneration :=
                   Generation (ObjectMeta simObject)\<rparr>\<rparr>) ?w
             = (simObject, ?w)"
      by (simp add: sim simObject_fields simObject_unchanged simAddChecksum_simObject)
    have h: "ImageRegistries_Update simCluster simObject ?w = (None, ?w\<lparr>sim_stored := Some simObject\<rparr>)"
      by (simp add: sim)
    from status_write_gate [where E = simCluster and params = simParams and s = "start ?w",
        OF a b c d e f g h]
    show ?thesis by simp
  qed
  from pass [of False] pass [of True] show ?thesis by simp
qed

text \<open>
  Claim C5 as stated fails. The stored object carries the fingerprint of its own \<open>Spec\<close> and
  \<open>Status\<close>, and \<open>Apply\<close> reports that it had to change a child resource. The pass leaves
  \<open>Spec\<close> and \<open>Status\<close> as they were, so the fingerprint of the object about to be written
  equals the stored one, and yet the object is written; the object stored in the cluster is
  then the same as before the pass.
\<close>

theorem status_write_gate_counterexample:
  "map_option Inr (Annotations (ObjectMeta simObject) (ChecksumOperatorAnnotation simCluster))
     = Some (Checksum simCluster (Spec simObject, Status simObject))
   \<and> sim_stored (simWorld\<lparr>sim_applyChanges := True\<rparr>) = Some simObject
   \<and> calls (snd (sync simCluster simParams (start (simWorld\<lparr>sim_applyChanges := True\<rparr>))))
       = [NewForConfig_call, Get_call ''image-registry'',
          conditionRemoved_call ConditionFalse [], appendFinalizer_call, verifyResource_call,
          NewDriver_call, ValidateConfiguration_call, Apply_call,
          deployments_Get_call ''image-registry'' ''openshift-image-registry'',
          services_Get_call ''image-registry'' ''openshift-image-registry'',
          syncStatus_call None, addImageRegistryChecksum_call, Update_call simObject]
   \<and> sim_stored (world (snd (sync simCluster simParams (start (simWorld\<lparr>sim_applyChanges := True\<rparr>)))))
       = Some simObject"
proof -
  have fp: "map_option Inr (Annotations (ObjectMeta simObject) (ChecksumOperatorAnnotation simCluster))
     = Some (Checksum simCluster (Spec simObject, Status simObject))"
    by (simp add: sim simObject_explicit simChecksum_def populated_def zeroStorage_def
          onlyS3_def fmt_v_def fmt_int_1 stateName_def conditionText_def)
  have run: "sync simCluster simParams (start (simWorld\<lparr>sim_applyChanges := True\<rparr>)) =
     (Returns None,
      \<lparr>world = simWorld\<lparr>sim_applyChanges := True, sim_stored := Some simObject\<rparr>,
       calls = [NewForConfig_call, Get_call ''image-registry'',
                conditionRemoved_call ConditionFalse [], appendFinalizer_call, verifyResource_call,
                NewDriver_call, ValidateConfiguration_call, Apply_call,
                deployments_Get_call ''image-registry'' ''openshift-image-registry'',
                services_Get_call ''image-registry'' ''openshift-image-registry'',
                syncStatus_call None, addImageRegistryChecksum_call, Update_call simObject]\<rparr>)"
    by (simp add: sync_def sync_write_def invoke_def start_def sim sim_switch_managed sim_observe
          simWorld_fields simObject_fields simObject_unchanged simAddChecksum_simObject)
  from fp run show ?thesis by (simp add: simWorld_fields)
qed

text \<open>
  Claim C6. When \<open>Handle\<close> is given the managed object itself and the fingerprint of its
  \<open>Spec\<close> and \<open>Status\<close> equals the checksum annotation it carries, \<open>Handle\<close> returns with the
  controller as it was: nothing is added to the work queue.
\<close>

theorem Handle_drops_own_echo:
  assumes "Checksum E (Spec cr, Status cr) = Inr d"
      and "Annotations (ObjectMeta cr) (ChecksumOperatorAnnotation E) = Some d"
  shows "Handle E action (MetaObject (ImageRegistryObject cr)) s = s"
  using assms by (simp add: Handle_def metaOf_def)

text \<open>
  The theorem on the simulated cluster: an event for the stored object, whose annotation
  is the fingerprint of its \<open>Spec\<close> and \<open>Status\<close>, leaves the queue empty.
\<close>

theorem Handle_drops_own_echo_witness:
  "Handle simCluster ''update'' (MetaObject (ImageRegistryObject simObject)) (start simWorld)
     = start simWorld
   \<and> calls (Handle simCluster ''update'' (MetaObject (ImageRegistryObject simObject)) (start simWorld))
     = []"
proof -
  obtain d where d: "simChecksum (Spec simObject, Status simObject) = Inr d"
    using simChecksum_total by blast
  obtain b where b: "simObject = simAddChecksum b"
    by (simp add: simObject_def)
  obtain d' where d': "simChecksum (Spec b, Status b) = Inr d'"
    using simChecksum_total by blast
  have same: "d' = d"
    using d d' by (simp add: b simAddChecksum_fields [OF d'])
  have c: "Checksum simCluster (Spec simObject, Status simObject) = Inr d"
    using d by (simp add: simCluster_def)
  have a: "Annotations (ObjectMeta simObject) (ChecksumOperatorAnnotation simCluster) = Some d"
    using simAddChecksum_fields(3) [OF d'] by (simp add: b same simCluster_def)
  from Handle_drops_own_echo [where E = simCluster and cr = simObject and d = d
      and action = "''update''" and s = "start simWorld", OF c a]
  show ?thesis by (simp add: start_def)
qed

text \<open>
  A tombstone around the managed object is not a \<open>*ImageRegistry\<close>: it takes the branch
  of the owned objects, where no fingerprint is computed, and is dropped when the object has
  no controller reference.
\<close>

lemma Handle_tombstone_without_owner:
  assumes "GetControllerOf (OwnerReferences (metaOf x)) = None"
  shows "Handle E action (DeletedFinalStateUnknown (Some x)) s = s"
  using assms by (simp add: Handle_def)

text \<open>
  Claim C7. When the object that \<open>sync\<close> fetched has a deletion timestamp, \<open>sync\<close> calls
  \<open>finalizeResources\<close> and returns its result; after the fetch nothing else is called,
  whatever \<open>Spec.ManagementState\<close> is: the switch on the management state is not reached.
\<close>

theorem sync_deletion_first:
  assumes "NewForConfig E (world s) = (None, w1)"
      and "ImageRegistries_Get E (resourceName E (Deployment_Namespace params)) w1 = ((Some cr, None), w2)"
      and "DeletionTimestamp (ObjectMeta cr) \<noteq> None"
      and "finalizeResources E cr w2 = (err, w3)"
  shows "sync E params s =
           (Returns err,
            \<lparr>world = w3,
             calls = calls s @ [NewForConfig_call, Get_call (resourceName E (Deployment_Namespace params)),
                                finalizeResources_call cr]\<rparr>)"
  using assms by (simp add: sync_def invoke_def)

text \<open>
  The theorem on the simulated cluster, for an object that is being deleted and is managed,
  removed or unmanaged.
\<close>

theorem sync_deletion_first_witness:
  "sync simCluster simParams (start (simWorld\<lparr>sim_stored := Some (deleting simObject)\<rparr>)) =
     (Returns None,
      \<lparr>world = simWorld\<lparr>sim_stored := None\<rparr>,
       calls = [NewForConfig_call, Get_call ''image-registry'',
                finalizeResources_call (deleting simObject)]\<rparr>)
   \<and> sync simCluster simParams
        (start (simWorld\<lparr>sim_stored := Some (deleting (withState Removed simObject))\<rparr>)) =
     (Returns None,
      \<lparr>world = simWorld\<lparr>sim_stored := None\<rparr>,
       calls = [NewForConfig_call, Get_call ''image-registry'',
                finalizeResources_call (deleting (withState Removed simObject))]\<rparr>)
   \<and> sync simCluster simParams
        (start (simWorld\<lparr>sim_stored := Some (deleting (withState Unmanaged simObject))\<rparr>)) =
     (Returns None,
      \<lparr>world = simWorld\<lparr>sim_stored := None\<rparr>,
       calls = [NewForConfig_call, Get_call ''image-registry'',
                finalizeResources_call (deleting (withState Unmanaged simObject))]\<rparr>)"
proof -
  have run: "sync simCluster simParams (start (simWorld\<lparr>sim_stored := Some (deleting cr)\<rparr>)) =
     (Returns None,
      \<lparr>world = simWorld\<lparr>sim_stored := None\<rparr>,
       calls = [NewForConfig_call, Get_call ''image-registry'', finalizeResources_call (deleting cr)]\<rparr>)"
    for cr
  proof -
    let ?w = "simWorld\<lparr>sim_stored := Some (deleting cr)\<rparr>"
    have a: "NewForConfig simCluster (world (start ?w)) = (None, ?w)"
      by (simp add: sim_NewForConfig start_def)
    have b: "ImageRegistries_Get simCluster (resourceName simCluster (Deployment_Namespace simParams)) ?w
               = ((Some (deleting cr), None), ?w)"
      by (simp add: sim_Get)
    have c: "DeletionTimestamp (ObjectMeta (deleting cr)) \<noteq> None"
      by (simp add: deleting_def)
    have d: "finalizeResources simCluster (deleting cr) ?w = (None, simWorld\<lparr>sim_stored := None\<rparr>)"
      by (simp add: sim_finalizeResources simWorld_def)
    from sync_deletion_first [where E = simCluster and params = simParams and s = "start ?w"
        and cr = "deleting cr", OF a b c d]
    show ?thesis by (simp add: start_def sim_resourceName)
  qed
  from run [of simObject] run [of "withState Removed simObject"] run [of "withState Unmanaged simObject"]
  show ?thesis by simp
qed

text \<open>
  Claim C10. When the fetch of the managed object fails with NotFound, \<open>sync\<close> returns nil
  after the fetch, having called nothing else (no apply, no teardown, no write); the worker
  then calls \<open>Forget\<close> and \<open>Done\<close> on the item and does not add it again.
\<close>

theorem sync_not_found:
  assumes "NewForConfig E (world s) = (None, w1)"
      and "ImageRegistries_Get E (resourceName E (Deployment_Namespace params)) w1 = ((cr, Some err), w2)"
      and "IsNotFound (Some err)"
  shows "sync E params s =
           (Returns None,
            \<lparr>world = w2,
             calls = calls s @ [NewForConfig_call, Get_call (resourceName E (Deployment_Namespace params))]\<rparr>)
       \<and> processItem E params (StringItem key) s =
           (Returns None,
            \<lparr>world = w2,
             calls = calls s @ [NewForConfig_call, Get_call (resourceName E (Deployment_Namespace params)),
                                Forget_call (StringItem key), Done_call (StringItem key)]\<rparr>)"
  using assms by (simp add: sync_def invoke_def processItem_def queueOp_def split: option.splits)

text \<open>The theorem on the simulated cluster, with no managed object stored.\<close>

theorem sync_not_found_witness:
  "sync simCluster simParams (start (simWorld\<lparr>sim_stored := None\<rparr>)) =
     (Returns None,
      \<lparr>world = simWorld\<lparr>sim_stored := None\<rparr>,
       calls = [NewForConfig_call, Get_call ''image-registry'']\<rparr>)
   \<and> processItem simCluster simParams (StringItem ''changes'') (start (simWorld\<lparr>sim_stored := None\<rparr>)) =
     (Returns None,
      \<lparr>world = simWorld\<lparr>sim_stored := None\<rparr>,
       calls = [NewForConfig_call, Get_call ''image-registry'',
                Forget_call (StringItem ''changes''), Done_call (StringItem ''changes'')]\<rparr>)"
proof -
  let ?w = "simWorld\<lparr>sim_stored := None\<rparr>"
  have a: "NewForConfig simCluster (world (start ?w)) = (None, ?w)"
    by (simp add: sim_NewForConfig start_def)
  have b: "ImageRegistries_Get simCluster (resourceName simCluster (Deployment_Namespace simParams)) ?w
             = ((Some zeroImageRegistry, Some notFound), ?w)"
    by (simp add: sim_Get)
  from sync_not_found [where E = simCluster and params = simParams and s = "start ?w"
      and key = "''changes''", OF a b notFound_IsNotFound]
  show ?thesis by (simp add: start_def sim_resourceName)
qed

lemma withConditions_fields:
  "Conditions (Status (withConditions cs cr)) = cs"
  "ObservedGeneration (Status (withConditions cs cr)) = ObservedGeneration (Status cr)"
  "InternalRegistryHostname (Status (withConditions cs cr)) = InternalRegistryHostname (Status cr)"
  "Spec (withConditions cs cr) = Spec cr"
  "ObjectMeta (withConditions cs cr) = ObjectMeta cr"
  "withConditions cs (withConditions cs' cr) = withConditions cs cr"
  by (simp_all add: withConditions_def)

lemma simCondition_withConditions:
  "simCondition t cr st msg modified w =
     (case updateCondition t st msg (Conditions (Status cr)) of
        (cs, changed) \<Rightarrow> ((withConditions cs cr, modified \<or> changed), w))"
  by (simp add: simCondition_def withConditions_def)

lemma removed_simObject_fields:
  "ManagementState (Spec (withState Removed simObject)) = Removed"
  "ObjectMeta (withState Removed simObject) = ObjectMeta simObject"
  "Status (withState Removed simObject) = Status simObject"
  by (simp_all add: withState_def)

lemma observed_generation_unchanged:
  assumes "ObservedGeneration (Status cr) = Generation (ObjectMeta cr)"
  shows "cr\<lparr>Status := (Status cr)\<lparr>ObservedGeneration := Generation (ObjectMeta cr)\<rparr>\<rparr> = cr"
  using assms [symmetric] by simp

text \<open>
  The end of a pass on the simulated cluster (lines 239-276), for an object whose name,
  hostname and observed generation are those of the stored object.
\<close>

lemma sim_rest_of_pass:
  assumes "Name (ObjectMeta x) = ''image-registry''"
      and "InternalRegistryHostname (Status x)
             = ''image-registry.openshift-image-registry.svc.cluster.local:5000''"
      and "ObservedGeneration (Status x) = Generation (ObjectMeta x)"
      and "sim_deployment w" and "sim_service w = Some simService"
  shows "(case sync_observe simCluster simParams x True None \<lparr>world = w, calls = cs\<rparr> of
            (Inl out, t) \<Rightarrow> (out, t)
          | (Inr (dep, c, f), t) \<Rightarrow> sync_write simCluster c dep None f t)
         = (Returns None,
            \<lparr>world = w\<lparr>sim_stored := Some (simAddChecksum x)\<rparr>,
             calls = cs @ [deployments_Get_call ''image-registry'' ''openshift-image-registry'',
                           services_Get_call ''image-registry'' ''openshift-image-registry'',
                           syncStatus_call None, addImageRegistryChecksum_call,
                           Update_call (simAddChecksum x)]\<rparr>)"
  using assms
  by (simp add: sync_observe_def sync_write_def invoke_def sim simService_fields simParams_fields
        fmt_int_5000 observed_generation_unchanged)

text \<open>
  Claim C8, as amended. Take a pass that fetched the managed object, found no deletion
  timestamp on it, and read \<open>Spec.ManagementState = Removed\<close>; the switch calls
  \<open>RemoveResources\<close>. When that succeeds, the switch applies to the managed object, in this
  order, \<open>conditionRemoved\<close> with true and \<open>conditionAvailable\<close>, \<open>conditionProgressing\<close> and
  \<open>conditionFailing\<close> with false, each with an empty message. When it fails with \<open>err\<close>, the
  switch reports Failing = true with the fixed message \<open>unable to remove registry\<close> to the
  cluster status handler, and applies to the managed object only \<open>conditionProgressing\<close> with
  true and the message \<open>unable to remove objects:\<close> followed by the text of \<open>err\<close>. In both
  cases the object, the flag and the cluster that the setters leave are what the switch
  returns, with \<open>applyError\<close> nil, and the rest of the pass (lines 239-276) runs on them.
\<close>

theorem removed_pass_conditions:
  assumes "NewForConfig E (world s) = (None, w1)"
      and "ImageRegistries_Get E (resourceName E (Deployment_Namespace params)) w1 = ((Some cr, None), w2)"
      and "DeletionTimestamp (ObjectMeta cr) = None"
      and "ManagementState (Spec cr) = Removed"
      and "RemoveResources E cr w2 = ((cr1, rerr), w3)"
  shows "(rerr = None \<longrightarrow>
           (\<forall>c2 f2 w4 c3 f3 w5 c4 f4 w6 c5 f5 w7.
              conditionRemoved E cr1 ConditionTrue [] False w3 = ((c2, f2), w4) \<longrightarrow>
              conditionAvailable E c2 ConditionFalse [] f2 w4 = ((c3, f3), w5) \<longrightarrow>
              conditionProgressing E c3 ConditionFalse [] f3 w5 = ((c4, f4), w6) \<longrightarrow>
              conditionFailing E c4 ConditionFalse [] f4 w6 = ((c5, f5), w7) \<longrightarrow>
              sync_switch E params cr
                  \<lparr>world = w2,
                   calls = calls s @ [NewForConfig_call,
                                      Get_call (resourceName E (Deployment_Namespace params))]\<rparr>
                = ((c5, f5, None),
                   \<lparr>world = w7,
                    calls = calls s @ [NewForConfig_call,
                              Get_call (resourceName E (Deployment_Namespace params)),
                              RemoveResources_call, conditionRemoved_call ConditionTrue [],
                              conditionAvailable_call ConditionFalse [],
                              conditionProgressing_call ConditionFalse [],
                              conditionFailing_call ConditionFalse []]\<rparr>)
              \<and> sync E params s =
                  (case sync_observe E params c5 f5 None
                          \<lparr>world = w7,
                           calls = calls s @ [NewForConfig_call,
                              Get_call (resourceName E (Deployment_Namespace params)),
                              RemoveResources_call, conditionRemoved_call ConditionTrue [],
                              conditionAvailable_call ConditionFalse [],
                              conditionProgressing_call ConditionFalse [],
                              conditionFailing_call ConditionFalse []]\<rparr> of
                     (Inl out, t) \<Rightarrow> (out, t)
                   | (Inr (dep, c, f), t) \<Rightarrow> sync_write E c dep None f t)))
       \<and> (\<forall>err. rerr = Some err \<longrightarrow>
           (\<forall>errOp w4 c2 f2 w5.
              clusterStatus_Update E OperatorFailing ConditionTrue ''unable to remove registry'' w3
                = (errOp, w4) \<longrightarrow>
              conditionProgressing E cr1 ConditionTrue (''unable to remove objects: '' @ Error err) False w4
                = ((c2, f2), w5) \<longrightarrow>
              sync_switch E params cr
                  \<lparr>world = w2,
                   calls = calls s @ [NewForConfig_call,
                                      Get_call (resourceName E (Deployment_Namespace params))]\<rparr>
                = ((c2, f2, None),
                   \<lparr>world = w5,
                    calls = calls s @ [NewForConfig_call,
                              Get_call (resourceName E (Deployment_Namespace params)),
                              RemoveResources_call,
                              clusterStatus_Update_call OperatorFailing ConditionTrue
                                ''unable to remove registry'',
                              conditionProgressing_call ConditionTrue
                                (''unable to remove objects: '' @ Error err)]\<rparr>)
              \<and> sync E params s =
                  (case sync_observe E params c2 f2 None
                          \<lparr>world = w5,
                           calls = calls s @ [NewForConfig_call,
                              Get_call (resourceName E (Deployment_Namespace params)),
                              RemoveResources_call,
                              clusterStatus_Update_call OperatorFailing ConditionTrue
                                ''unable to remove registry'',
                              conditionProgressing_call ConditionTrue
                                (''unable to remove objects: '' @ Error err)]\<rparr> of
                     (Inl out, t) \<Rightarrow> (out, t)
                   | (Inr (dep, c, f), t) \<Rightarrow> sync_write E c dep None f t)))"
proof (intro conjI impI allI)
  fix c2 f2 w4 c3 f3 w5 c4 f4 w6 c5 f5 w7
  assume ok: "rerr = None"
    and r: "conditionRemoved E cr1 ConditionTrue [] False w3 = ((c2, f2), w4)"
    and a: "conditionAvailable E c2 ConditionFalse [] f2 w4 = ((c3, f3), w5)"
    and p: "conditionProgressing E c3 ConditionFalse [] f3 w5 = ((c4, f4), w6)"
    and f: "conditionFailing E c4 ConditionFalse [] f4 w6 = ((c5, f5), w7)"
  let ?s2 = "\<lparr>world = w2,
              calls = calls s @ [NewForConfig_call,
                                 Get_call (resourceName E (Deployment_Namespace params))]\<rparr>"
  let ?s7 = "\<lparr>world = w7,
              calls = calls s @ [NewForConfig_call,
                        Get_call (resourceName E (Deployment_Namespace params)),
                        RemoveResources_call, conditionRemoved_call ConditionTrue [],
                        conditionAvailable_call ConditionFalse [],
                        conditionProgressing_call ConditionFalse [],
                        conditionFailing_call ConditionFalse []]\<rparr>"
  show sw: "sync_switch E params cr ?s2 = ((c5, f5, None), ?s7)"
    using assms(4,5) ok r a p f by (simp add: sync_switch_def invoke_def)
  show "sync E params s =
          (case sync_observe E params c5 f5 None ?s7 of
             (Inl out, t) \<Rightarrow> (out, t)
           | (Inr (dep, c, f), t) \<Rightarrow> sync_write E c dep None f t)"
    using assms(1,2,3) sw by (simp add: sync_def invoke_def)
next
  fix err errOp w4 c2 f2 w5
  assume bad: "rerr = Some err"
    and u: "clusterStatus_Update E OperatorFailing ConditionTrue ''unable to remove registry'' w3
              = (errOp, w4)"
    and p: "conditionProgressing E cr1 ConditionTrue (''unable to remove objects: '' @ Error err) False w4
              = ((c2, f2), w5)"
  let ?s2 = "\<lparr>world = w2,
              calls = calls s @ [NewForConfig_call,
                                 Get_call (resourceName E (Deployment_Namespace params))]\<rparr>"
  let ?s5 = "\<lparr>world = w5,
              calls = calls s @ [NewForConfig_call,
                        Get_call (resourceName E (Deployment_Namespace params)),
                        RemoveResources_call,
                        clusterStatus_Update_call OperatorFailing ConditionTrue
                          ''unable to remove registry'',
                        conditionProgressing_call ConditionTrue
                          (''unable to remove objects: '' @ Error err)]\<rparr>"
  show sw: "sync_switch E params cr ?s2 = ((c2, f2, None), ?s5)"
    using assms(4,5) bad u p by (simp add: sync_switch_def invoke_def)
  show "sync E params s =
          (case sync_observe E params c2 f2 None ?s5 of
             (Inl out, t) \<Rightarrow> (out, t)
           | (Inr (dep, c, f), t) \<Rightarrow> sync_write E c dep None f t)"
    using assms(1,2,3) sw by (simp add: sync_def invoke_def)
qed

text \<open>
  The theorem on the simulated cluster, for a teardown that succeeds and one that fails:
  the whole pass, and the conditions of the object it writes.
\<close>

theorem removed_pass_conditions_witness:
  "sync simCluster simParams (start (simWorld\<lparr>sim_stored := Some (withState Removed simObject)\<rparr>)) =
     (Returns None,
      \<lparr>world = simWorld\<lparr>sim_stored := Some (simAddChecksum (withConditions
                [\<lparr>Type = ''Removed'', CondStatus = ConditionTrue, Message = []\<rparr>,
                 \<lparr>Type = ''Failing'', CondStatus = ConditionFalse, Message = []\<rparr>,
                 \<lparr>Type = ''Available'', CondStatus = ConditionFalse, Message = []\<rparr>,
                 \<lparr>Type = ''Progressing'', CondStatus = ConditionFalse, Message = []\<rparr>]
                (withState Removed simObject)))\<rparr>,
       calls = [NewForConfig_call, Get_call ''image-registry'', RemoveResources_call,
                conditionRemoved_call ConditionTrue [], conditionAvailable_call ConditionFalse [],
                conditionProgressing_call ConditionFalse [], conditionFailing_call ConditionFalse [],
                deployments_Get_call ''image-registry'' ''openshift-image-registry'',
                services_Get_call ''image-registry'' ''openshift-image-registry'',
                syncStatus_call None, addImageRegistryChecksum_call,
                Update_call (simAddChecksum (withConditions
                  [\<lparr>Type = ''Removed'', CondStatus = ConditionTrue, Message = []\<rparr>,
                   \<lparr>Type = ''Failing'', CondStatus = ConditionFalse, Message = []\<rparr>,
                   \<lparr>Type = ''Available'', CondStatus = ConditionFalse, Message = []\<rparr>,
                   \<lparr>Type = ''Progressing'', CondStatus = ConditionFalse, Message = []\<rparr>]
                  (withState Removed simObject)))]\<rparr>)
   \<and> map (Conditions \<circ> Status) (writes (calls (snd (sync simCluster simParams
         (start (simWorld\<lparr>sim_stored := Some (withState Removed simObject)\<rparr>)))))) =
     [[\<lparr>Type = ''Removed'', CondStatus = ConditionTrue, Message = []\<rparr>,
       \<lparr>Type = ''Failing'', CondStatus = ConditionFalse, Message = []\<rparr>,
       \<lparr>Type = ''Available'', CondStatus = ConditionFalse, Message = []\<rparr>,
       \<lparr>Type = ''Progressing'', CondStatus = ConditionFalse, Message = []\<rparr>]]
   \<and> calls (snd (sync simCluster simParams
         (start (simWorld\<lparr>sim_stored := Some (withState Removed simObject),
                            sim_removeError := Some (Errorf ''bucket is not empty'')\<rparr>)))) =
       [NewForConfig_call, Get_call ''image-registry'', RemoveResources_call,
        clusterStatus_Update_call OperatorFailing ConditionTrue ''unable to remove registry'',
        conditionProgressing_call ConditionTrue ''unable to remove objects: bucket is not empty'',
        deployments_Get_call ''image-registry'' ''openshift-image-registry'',
        services_Get_call ''image-registry'' ''openshift-image-registry'',
        syncStatus_call None, addImageRegistryChecksum_call,
        Update_call (simAddChecksum (withConditions
          [\<lparr>Type = ''Removed'', CondStatus = ConditionFalse, Message = []\<rparr>,
           \<lparr>Type = ''Failing'', CondStatus = ConditionFalse, Message = []\<rparr>,
           \<lparr>Type = ''Progressing'', CondStatus = ConditionTrue,
             Message = ''unable to remove objects: bucket is not empty''\<rparr>]
          (withState Removed simObject)))]"
proof -
  let ?r = "withState Removed simObject"
  let ?ok = "[\<lparr>Type = ''Removed'', CondStatus = ConditionTrue, Message = []\<rparr>,
       \<lparr>Type = ''Failing'', CondStatus = ConditionFalse, Message = []\<rparr>,
       \<lparr>Type = ''Available'', CondStatus = ConditionFalse, Message = []\<rparr>,
       \<lparr>Type = ''Progressing'', CondStatus = ConditionFalse, Message = []\<rparr>]"
  let ?bad = "[\<lparr>Type = ''Removed'', CondStatus = ConditionFalse, Message = []\<rparr>,
       \<lparr>Type = ''Failing'', CondStatus = ConditionFalse, Message = []\<rparr>,
       \<lparr>Type = ''Progressing'', CondStatus = ConditionTrue,
         Message = ''unable to remove objects: bucket is not empty''\<rparr>]"
  have fields: "Name (ObjectMeta (withConditions cs ?r)) = ''image-registry''"
      "InternalRegistryHostname (Status (withConditions cs ?r))
         = ''image-registry.openshift-image-registry.svc.cluster.local:5000''"
      "ObservedGeneration (Status (withConditions cs ?r)) = Generation (ObjectMeta (withConditions cs ?r))"
    for cs
    by (simp_all add: withConditions_fields removed_simObject_fields simObject_fields)
  have c: "DeletionTimestamp (ObjectMeta ?r) = None"
    by (simp add: removed_simObject_fields simObject_fields)
  have d: "ManagementState (Spec ?r) = Removed"
    by (simp add: removed_simObject_fields)

  let ?w = "simWorld\<lparr>sim_stored := Some ?r\<rparr>"
  have a: "NewForConfig simCluster (world (start ?w)) = (None, ?w)"
    by (simp add: sim start_def)
  have b: "ImageRegistries_Get simCluster (resourceName simCluster (Deployment_Namespace simParams)) ?w
             = ((Some ?r, None), ?w)"
    by (simp add: sim)
  have e: "RemoveResources simCluster ?r ?w = ((?r, None), ?w)"
    by (simp add: sim simWorld_fields)
  have s1: "conditionRemoved simCluster ?r ConditionTrue [] False ?w
      = ((withConditions [\<lparr>Type = ''Removed'', CondStatus = ConditionTrue, Message = []\<rparr>,
                          \<lparr>Type = ''Failing'', CondStatus = ConditionFalse, Message = []\<rparr>] ?r,
          True), ?w)"
    by (simp add: sim simCondition_withConditions removed_simObject_fields simObject_fields)
  have s2: "conditionAvailable simCluster
        (withConditions [\<lparr>Type = ''Removed'', CondStatus = ConditionTrue, Message = []\<rparr>,
                         \<lparr>Type = ''Failing'', CondStatus = ConditionFalse, Message = []\<rparr>] ?r)
        ConditionFalse [] True ?w
      = ((withConditions [\<lparr>Type = ''Removed'', CondStatus = ConditionTrue, Message = []\<rparr>,
                          \<lparr>Type = ''Failing'', CondStatus = ConditionFalse, Message = []\<rparr>,
                          \<lparr>Type = ''Available'', CondStatus = ConditionFalse, Message = []\<rparr>] ?r,
          True), ?w)"
    by (simp add: sim simCondition_withConditions withConditions_fields)
  have s3: "conditionProgressing simCluster
        (withConditions [\<lparr>Type = ''Removed'', CondStatus = ConditionTrue, Message = []\<rparr>,
                         \<lparr>Type = ''Failing'', CondStatus = ConditionFalse, Message = []\<rparr>,
                         \<lparr>Type = ''Available'', CondStatus = ConditionFalse, Message = []\<rparr>] ?r)
        ConditionFalse [] True ?w
      = ((withConditions ?ok ?r, True), ?w)"
    by (simp add: sim simCondition_withConditions withConditions_fields)
  have s4: "conditionFailing simCluster (withConditions ?ok ?r) ConditionFalse [] True ?w
      = ((withConditions ?ok ?r, True), ?w)"
    by (simp add: sim simCondition_withConditions withConditions_fields)
  note ok = removed_pass_conditions [where E = simCluster and params = simParams and s = "start ?w",
      OF a b c d e, THEN conjunct1, rule_format, OF refl s1 s2 s3 s4, THEN conjunct2]
  have pass_ok: "sync simCluster simParams (start ?w) =
     (Returns None,
      \<lparr>world = simWorld\<lparr>sim_stored := Some (simAddChecksum (withConditions ?ok ?r))\<rparr>,
       calls = [NewForConfig_call, Get_call ''image-registry'', RemoveResources_call,
                conditionRemoved_call ConditionTrue [], conditionAvailable_call ConditionFalse [],
                conditionProgressing_call ConditionFalse [], conditionFailing_call ConditionFalse [],
                deployments_Get_call ''image-registry'' ''openshift-image-registry'',
                services_Get_call ''image-registry'' ''openshift-image-registry'',
                syncStatus_call None, addImageRegistryChecksum_call,
                Update_call (simAddChecksum (withConditions ?ok ?r))]\<rparr>)"
    unfolding ok
    by (simp add: sim_rest_of_pass fields simWorld_fields start_def sim_resourceName)

  let ?e = "Errorf ''bucket is not empty''"
  let ?v = "simWorld\<lparr>sim_stored := Some ?r, sim_removeError := Some ?e\<rparr>"
  have a': "NewForConfig simCluster (world (start ?v)) = (None, ?v)"
    by (simp add: sim start_def)
  have b': "ImageRegistries_Get simCluster (resourceName simCluster (Deployment_Namespace simParams)) ?v
             = ((Some ?r, None), ?v)"
    by (simp add: sim)
  have e': "RemoveResources simCluster ?r ?v = ((?r, Some ?e), ?v)"
    by (simp add: sim)
  have u: "clusterStatus_Update simCluster OperatorFailing ConditionTrue ''unable to remove registry'' ?v
             = (None, ?v)"
    by (simp add: sim)
  have p: "conditionProgressing simCluster ?r ConditionTrue (''unable to remove objects: '' @ Error ?e)
             False ?v
           = ((withConditions ?bad ?r, True), ?v)"
    by (simp add: sim simCondition_withConditions removed_simObject_fields simObject_fields)
  note bad = removed_pass_conditions [where E = simCluster and params = simParams and s = "start ?v",
      OF a' b' c d e', THEN conjunct2, rule_format, OF refl u p, THEN conjunct2]
  have pass_bad: "sync simCluster simParams (start ?v) =
     (Returns None,
      \<lparr>world = ?v\<lparr>sim_stored := Some (simAddChecksum (withConditions ?bad ?r))\<rparr>,
       calls = [NewForConfig_call, Get_call ''image-registry'', RemoveResources_call,
                clusterStatus_Update_call OperatorFailing ConditionTrue ''unable to remove registry'',
                conditionProgressing_call ConditionTrue ''unable to remove objects: bucket is not empty'',
                deployments_Get_call ''image-registry'' ''openshift-image-registry'',
                services_Get_call ''image-registry'' ''openshift-image-registry'',
                syncStatus_call None, addImageRegistryChecksum_call,
                Update_call (simAddChecksum (withConditions ?bad ?r))]\<rparr>)"
    unfolding bad
    by (simp add: sim_rest_of_pass fields simWorld_fields start_def sim_resourceName)

  have written: "Conditions (Status (simAddChecksum (withConditions cs ?r))) = cs" for cs
  proof -
    obtain dg where "simChecksum (Spec (withConditions cs ?r), Status (withConditions cs ?r)) = Inr dg"
      using simChecksum_total by blast
    then show ?thesis
      by (simp add: simAddChecksum_fields withConditions_fields)
  qed
  from pass_ok pass_bad show ?thesis
    by (simp add: written)
qed

lemma sim_switch_removed_fails:
  "sync_switch simCluster simParams (withState Removed simObject)
       (start (simWorld\<lparr>sim_removeError := Some (Errorf ''bucket is not empty'')\<rparr>)) =
     ((withConditions
         [\<lparr>Type = ''Removed'', CondStatus = ConditionFalse, Message = []\<rparr>,
          \<lparr>Type = ''Failing'', CondStatus = ConditionFalse, Message = []\<rparr>,
          \<lparr>Type = ''Progressing'', CondStatus = ConditionTrue,
            Message = ''unable to remove objects: bucket is not empty''\<rparr>]
         (withState Removed simObject),
       True, None),
      \<lparr>world = simWorld\<lparr>sim_removeError := Some (Errorf ''bucket is not empty'')\<rparr>,
       calls = [RemoveResources_call,
                clusterStatus_Update_call OperatorFailing ConditionTrue ''unable to remove registry'',
                conditionProgressing_call ConditionTrue ''unable to remove objects: bucket is not empty'']\<rparr>)"
  by (simp add: sync_switch_def invoke_def sim simCondition_withConditions start_def
        removed_simObject_fields simObject_fields)

lemma sim_pass_removed_deleting:
  "sync simCluster simParams
       (start (simWorld\<lparr>sim_stored := Some (deleting (withState Removed simObject))\<rparr>)) =
     (Returns None,
      \<lparr>world = simWorld\<lparr>sim_stored := None\<rparr>,
       calls = [NewForConfig_call, Get_call ''image-registry'',
                finalizeResources_call (deleting (withState Removed simObject))]\<rparr>)"
  by (simp add: sync_def invoke_def start_def sim deleting_def simWorld_fields)

text \<open>
  Claim C8 as stated fails in two ways. When the teardown fails, the switch does not call
  \<open>conditionFailing\<close>: with the condition setters of the simulated cluster the managed
  object's Failing condition is still false when the switch is left, the text of the error
  is in the Progressing condition only, and the message that goes with Failing = true, in
  the cluster status, is the fixed one. And when the object has a deletion timestamp, a pass
  with \<open>Spec.ManagementState = Removed\<close> calls \<open>finalizeResources\<close> and sets no condition.
\<close>

theorem removed_pass_conditions_counterexample:
  "ManagementState (Spec (withState Removed simObject)) = Removed
   \<and> Conditions (Status (fst (fst (sync_switch simCluster simParams (withState Removed simObject)
         (start (simWorld\<lparr>sim_removeError := Some (Errorf ''bucket is not empty'')\<rparr>))))))
     = [\<lparr>Type = ''Removed'', CondStatus = ConditionFalse, Message = []\<rparr>,
        \<lparr>Type = ''Failing'', CondStatus = ConditionFalse, Message = []\<rparr>,
        \<lparr>Type = ''Progressing'', CondStatus = ConditionTrue,
          Message = ''unable to remove objects: bucket is not empty''\<rparr>]
   \<and> calls (snd (sync_switch simCluster simParams (withState Removed simObject)
         (start (simWorld\<lparr>sim_removeError := Some (Errorf ''bucket is not empty'')\<rparr>))))
     = [RemoveResources_call,
        clusterStatus_Update_call OperatorFailing ConditionTrue ''unable to remove registry'',
        conditionProgressing_call ConditionTrue ''unable to remove objects: bucket is not empty'']
   \<and> ManagementState (Spec (deleting (withState Removed simObject))) = Removed
   \<and> calls (snd (sync simCluster simParams
         (start (simWorld\<lparr>sim_stored := Some (deleting (withState Removed simObject))\<rparr>))))
     = [NewForConfig_call, Get_call ''image-registry'',
        finalizeResources_call (deleting (withState Removed simObject))]"
  by (simp add: sim_switch_removed_fails sim_pass_removed_deleting withConditions_fields)
     (simp add: withState_def deleting_def)

lemma sync_write_returns_nil: "fst (sync_write E cr deploy applyError statusChanged s) = Returns None"
  by (simp add: sync_write_def invoke_def split: prod.splits)

text \<open>
  Claim C9, as amended. For a string item the worker does what the result of \<open>sync\<close> says:
  when \<open>sync\<close> returns an error it adds the constant key again with \<open>AddRateLimited\<close>, when
  \<open>sync\<close> returns nil it calls \<open>Forget\<close> on the item; \<open>Done\<close> follows in both cases. An
  apply failure does not make \<open>sync\<close> return an error: in a pass that fetched the object,
  found no deletion timestamp and was not ended by the reads of the deployment and the
  service, \<open>sync\<close> returns nil whatever \<open>applyError\<close> is, so the item is forgotten.
\<close>

theorem worker_requeue_follows_sync:
  assumes "NewForConfig E (world s) = (None, w1)"
      and "ImageRegistries_Get E (resourceName E (Deployment_Namespace params)) w1 = ((Some cr, None), w2)"
      and "DeletionTimestamp (ObjectMeta cr) = None"
      and "sync_switch E params cr
             \<lparr>world = w2,
              calls = calls s @ [NewForConfig_call, Get_call (resourceName E (Deployment_Namespace params))]\<rparr>
           = ((cr3, sc3, applyError), s3)"
      and "sync_observe E params cr3 sc3 applyError s3 = (Inr (deploy, cr4, sc4), s4)"
  shows "(\<forall>t. processItem E params (StringItem key) t =
           (case sync E params t of
              (Returns (Some err), t') \<Rightarrow>
                (Returns (Some (Errorf (''unable to sync: '' @ Error err @ '', requeuing''))),
                 t'\<lparr>calls := calls t' @ [AddRateLimited_call WORKQUEUE_KEY, Done_call (StringItem key)]\<rparr>)
            | (Returns None, t') \<Rightarrow>
                (Returns None,
                 t'\<lparr>calls := calls t' @ [Forget_call (StringItem key), Done_call (StringItem key)]\<rparr>)
            | (Panics, t') \<Rightarrow>
                (Panics, t'\<lparr>calls := calls t' @ [Done_call (StringItem key)]\<rparr>)))
       \<and> fst (sync E params s) = Returns None
       \<and> fst (processItem E params (StringItem key) s) = Returns None
       \<and> calls (snd (processItem E params (StringItem key) s))
           = calls (snd (sync E params s)) @ [Forget_call (StringItem key), Done_call (StringItem key)]"
proof -
  have p: "processItem E params (StringItem key) t =
           (case sync E params t of
              (Returns (Some err), t') \<Rightarrow>
                (Returns (Some (Errorf (''unable to sync: '' @ Error err @ '', requeuing''))),
                 t'\<lparr>calls := calls t' @ [AddRateLimited_call WORKQUEUE_KEY, Done_call (StringItem key)]\<rparr>)
            | (Returns None, t') \<Rightarrow>
                (Returns None,
                 t'\<lparr>calls := calls t' @ [Forget_call (StringItem key), Done_call (StringItem key)]\<rparr>)
            | (Panics, t') \<Rightarrow>
                (Panics, t'\<lparr>calls := calls t' @ [Done_call (StringItem key)]\<rparr>))"
    for t
    by (simp add: processItem_def queueOp_def split: prod.splits Outcome.splits option.splits)
  have "sync E params s = sync_write E cr4 deploy applyError sc4 s4"
    using assms by (simp add: sync_def invoke_def)
  then have nil: "fst (sync E params s) = Returns None"
    by (simp add: sync_write_returns_nil)
  then obtain s' where s': "sync E params s = (Returns None, s')"
    by (cases "sync E params s") simp
  have q: "fst (processItem E params (StringItem key) s) = Returns None"
    by (simp add: p s')
  have r: "calls (snd (processItem E params (StringItem key) s))
           = calls (snd (sync E params s)) @ [Forget_call (StringItem key), Done_call (StringItem key)]"
    by (simp add: p s')
  from p nil q r show ?thesis by blast
qed

lemma sim_switch_apply_fails:
  "sync_switch simCluster simParams simObject \<lparr>world = simWorld\<lparr>sim_applyError := Some e\<rparr>, calls = cs\<rparr>
   = ((simObject, False, Some e),
      \<lparr>world = simWorld\<lparr>sim_applyError := Some e\<rparr>,
       calls = cs @ [conditionRemoved_call ConditionFalse [], appendFinalizer_call, verifyResource_call,
                     NewDriver_call, ValidateConfiguration_call, Apply_call]\<rparr>)"
  by (simp add: sync_switch_def CreateOrUpdateResources_def createOrUpdateResources_def invoke_def
        sim simCondition_def sim_resolve_S3 simObject_fields simObject_unchanged simWorld_fields)

lemma sim_observe_apply_fails:
  "sync_observe simCluster simParams simObject False (Some e)
       \<lparr>world = simWorld\<lparr>sim_applyError := Some e\<rparr>, calls = cs\<rparr>
   = (Inr (Some (OtherRuntimeObject ()), simObject, False),
      \<lparr>world = simWorld\<lparr>sim_applyError := Some e\<rparr>,
       calls = cs @ [deployments_Get_call ''image-registry'' ''openshift-image-registry'']\<rparr>)"
  by (simp add: sync_observe_def invoke_def sim simObject_fields simWorld_fields simParams_fields)

lemma sim_pass_apply_fails:
  "sync simCluster simParams (start (simWorld\<lparr>sim_applyError := Some e\<rparr>)) =
     (Returns None,
      \<lparr>world = simWorld\<lparr>sim_applyError := Some e\<rparr>,
       calls = [NewForConfig_call, Get_call ''image-registry'',
                conditionRemoved_call ConditionFalse [], appendFinalizer_call, verifyResource_call,
                NewDriver_call, ValidateConfiguration_call, Apply_call,
                deployments_Get_call ''image-registry'' ''openshift-image-registry'',
                syncStatus_call (Some e)]\<rparr>)"
  by (simp add: sync_def sync_write_def invoke_def start_def sim sim_switch_apply_fails
        sim_observe_apply_fails simWorld_fields simObject_fields)

lemma sim_pass_finalize_fails:
  "sync simCluster simParams
       (start (simWorld\<lparr>sim_stored := Some (deleting simObject), sim_finalizeError := Some e\<rparr>)) =
     (Returns (Some e),
      \<lparr>world = simWorld\<lparr>sim_stored := Some (deleting simObject), sim_finalizeError := Some e\<rparr>,
       calls = [NewForConfig_call, Get_call ''image-registry'',
                finalizeResources_call (deleting simObject)]\<rparr>)"
  by (simp add: sync_def invoke_def start_def sim deleting_def)

text \<open>
  The theorem on the simulated cluster: a pass whose teardown on deletion fails puts the key
  back, and a pass whose apply step fails does not.
\<close>

theorem worker_requeue_follows_sync_witness:
  "processItem simCluster simParams (StringItem ''changes'')
       (start (simWorld\<lparr>sim_stored := Some (deleting simObject),
                          sim_finalizeError := Some (Errorf ''storage is still there'')\<rparr>)) =
     (Returns (Some (Errorf ''unable to sync: storage is still there, requeuing'')),
      \<lparr>world = simWorld\<lparr>sim_stored := Some (deleting simObject),
                         sim_finalizeError := Some (Errorf ''storage is still there'')\<rparr>,
       calls = [NewForConfig_call, Get_call ''image-registry'',
                finalizeResources_call (deleting simObject),
                AddRateLimited_call ''changes'', Done_call (StringItem ''changes'')]\<rparr>)
   \<and> fst (sync simCluster simParams
            (start (simWorld\<lparr>sim_applyError := Some (Errorf ''etcdserver: request timed out'')\<rparr>)))
       = Returns None
   \<and> calls (snd (processItem simCluster simParams (StringItem ''changes'')
            (start (simWorld\<lparr>sim_applyError := Some (Errorf ''etcdserver: request timed out'')\<rparr>))))
       = [NewForConfig_call, Get_call ''image-registry'',
          conditionRemoved_call ConditionFalse [], appendFinalizer_call, verifyResource_call,
          NewDriver_call, ValidateConfiguration_call, Apply_call,
          deployments_Get_call ''image-registry'' ''openshift-image-registry'',
          syncStatus_call (Some (Errorf ''etcdserver: request timed out'')),
          Forget_call (StringItem ''changes''), Done_call (StringItem ''changes'')]"
proof -
  let ?e = "Errorf ''etcdserver: request timed out''"
  let ?w = "simWorld\<lparr>sim_applyError := Some ?e\<rparr>"
  have a: "NewForConfig simCluster (world (start ?w)) = (None, ?w)"
    by (simp add: sim start_def)
  have b: "ImageRegistries_Get simCluster (resourceName simCluster (Deployment_Namespace simParams)) ?w
             = ((Some simObject, None), ?w)"
    by (simp add: sim simWorld_fields)
  have c: "DeletionTimestamp (ObjectMeta simObject) = None"
    by (simp add: simObject_fields)
  have d: "sync_switch simCluster simParams simObject
             \<lparr>world = ?w,
              calls = calls (start ?w) @ [NewForConfig_call,
                        Get_call (resourceName simCluster (Deployment_Namespace simParams))]\<rparr>
           = ((simObject, False, Some ?e),
              \<lparr>world = ?w,
               calls = [NewForConfig_call, Get_call ''image-registry'',
                        conditionRemoved_call ConditionFalse [], appendFinalizer_call,
                        verifyResource_call, NewDriver_call, ValidateConfiguration_call, Apply_call]\<rparr>)"
    by (simp add: sim_switch_apply_fails start_def sim_resourceName)
  have e: "sync_observe simCluster simParams simObject False (Some ?e)
             \<lparr>world = ?w,
               calls = [NewForConfig_call, Get_call ''image-registry'',
                        conditionRemoved_call ConditionFalse [], appendFinalizer_call,
                        verifyResource_call, NewDriver_call, ValidateConfiguration_call, Apply_call]\<rparr>
           = (Inr (Some (OtherRuntimeObject ()), simObject, False),
              \<lparr>world = ?w,
               calls = [NewForConfig_call, Get_call ''image-registry'',
                        conditionRemoved_call ConditionFalse [], appendFinalizer_call,
                        verifyResource_call, NewDriver_call, ValidateConfiguration_call, Apply_call,
                        deployments_Get_call ''image-registry'' ''openshift-image-registry'']\<rparr>)"
    by (simp add: sim_observe_apply_fails)
  note t = worker_requeue_follows_sync [where E = simCluster and params = simParams
      and s = "start ?w" and key = "''changes''", OF a b c d e]
  note p = t [THEN conjunct1, rule_format,
      of "start (simWorld\<lparr>sim_stored := Some (deleting simObject),
                            sim_finalizeError := Some (Errorf ''storage is still there'')\<rparr>)"]
  from p have t1: "processItem simCluster simParams (StringItem ''changes'')
       (start (simWorld\<lparr>sim_stored := Some (deleting simObject),
                          sim_finalizeError := Some (Errorf ''storage is still there'')\<rparr>)) =
     (Returns (Some (Errorf ''unable to sync: storage is still there, requeuing'')),
      \<lparr>world = simWorld\<lparr>sim_stored := Some (deleting simObject),
                         sim_finalizeError := Some (Errorf ''storage is still there'')\<rparr>,
       calls = [NewForConfig_call, Get_call ''image-registry'',
                finalizeResources_call (deleting simObject),
                AddRateLimited_call ''changes'', Done_call (StringItem ''changes'')]\<rparr>)"
    by (simp add: sim_pass_finalize_fails WORKQUEUE_KEY_def)
  note t2 = t [THEN conjunct2, THEN conjunct1]
  note t3 = t [THEN conjunct2, THEN conjunct2, THEN conjunct2]
  from t1 t2 t3 show ?thesis
    by (simp add: sim_pass_apply_fails)
qed

text \<open>
  Claim C9 as stated fails for apply failures. \<open>Apply\<close> fails with a transient error; the
  switch leaves it in \<open>applyError\<close>, \<open>syncStatus\<close> receives it, \<open>sync\<close> returns nil, and the
  worker calls \<open>Forget\<close>: the key is not added again.
\<close>

theorem worker_requeue_follows_sync_counterexample:
  "snd (snd (fst (sync_switch simCluster simParams simObject
         (start (simWorld\<lparr>sim_applyError := Some (Errorf ''etcdserver: request timed out'')\<rparr>)))))
     = Some (Errorf ''etcdserver: request timed out'')
   \<and> \<not> isPermanent (Errorf ''etcdserver: request timed out'')
   \<and> processItem simCluster simParams (StringItem ''changes'')
         (start (simWorld\<lparr>sim_applyError := Some (Errorf ''etcdserver: request timed out'')\<rparr>)) =
       (Returns None,
        \<lparr>world = simWorld\<lparr>sim_applyError := Some (Errorf ''etcdserver: request timed out'')\<rparr>,
         calls = [NewForConfig_call, Get_call ''image-registry'',
                  conditionRemoved_call ConditionFalse [], appendFinalizer_call, verifyResource_call,
                  NewDriver_call, ValidateConfiguration_call, Apply_call,
                  deployments_Get_call ''image-registry'' ''openshift-image-registry'',
                  syncStatus_call (Some (Errorf ''etcdserver: request timed out'')),
                  Forget_call (StringItem ''changes''), Done_call (StringItem ''changes'')]\<rparr>)"
  by (simp add: processItem_def queueOp_def sim_pass_apply_fails)
     (simp add: start_def sim_switch_apply_fails)

end
